theory Spec2Isabelle
  imports Complex_Main "HOL-Library.AList"
begin

section \<open>Data model\<close>

text \<open>
  The employee documents of \<^verbatim>\<open>Employee.model.ts\<close>, the inputs of
  \<^verbatim>\<open>types/employee.type.ts\<close> and \<^verbatim>\<open>types/pagination.type.ts\<close>, and the errors the
  services and resolvers raise. Strings are taken in the form the schema's setters leave them in
  (trimmed, e-mail in lower case). The timestamps and \<^verbatim>\<open>joiningDate\<close> are left out: no
  operation below reads them. \<^verbatim>\<open>populate('createdBy')\<close> is left out as well, so
  \<open>createdBy\<close> stays the identifier of the creating user.
\<close>

datatype attendance_status = present | absent | late

record attendance_entry =
  date :: string
  status :: attendance_status
  remarks :: "string option"

record employee =
  oid :: string
  employeeId :: string
  name :: string
  email :: string
  age :: int
  emp_class :: string
  subjects :: "string list"
  attendance :: "attendance_entry list"
  salary :: "rat option"
  department :: "string option"
  isActive :: bool
  createdBy :: string

text \<open>
  \<open>GraphQLError message code\<close> is a \<^verbatim>\<open>GraphQLError\<close> with \<^verbatim>\<open>extensions.code\<close>;
  \<open>ValidationError\<close> is what Mongoose raises when a schema validator fails;
  \<open>MongoServerError\<close> is a command the server refuses (a negative skip, a unique index).
\<close>

datatype error = GraphQLError string string | ValidationError | MongoServerError

datatype UserRole = ADMIN | EMPLOYEE

record context_user =
  user_id :: string
  user_email :: string
  role :: UserRole
  employeeRef :: "string option"

record employee_filter =
  f_oid :: "string option"
  f_name :: "string option"
  f_email :: "string option"
  f_class :: "string option"
  f_department :: "string option"
  f_ageMin :: "int option"
  f_ageMax :: "int option"
  f_isActive :: "bool option"
  f_subject :: "string option"

datatype sort_order = ASC | DESC

record sort_input =
  s_field :: "string option"
  s_order :: "sort_order option"

record pagination_input =
  p_page :: "int option"
  p_limit :: "int option"

text \<open>The query object \<^verbatim>\<open>getEmployees\<close> builds for the store.\<close>

record age_bounds =
  gte :: "int option"
  lte :: "int option"

record query =
  q_isActive :: bool
  q_name :: "string option"
  q_email :: "string option"
  q_class :: "string option"
  q_department :: "string option"
  q_age :: "age_bounds option"
  q_subjects :: "string option"

text \<open>
  \<^verbatim>\<open>Math.ceil(total / limit)\<close> is a JavaScript number: a division by zero gives an
  infinity or \<^verbatim>\<open>NaN\<close>.
\<close>

datatype jsnum = Num int | Infinity | NegInfinity | NaN

record pagination_info =
  total :: int
  page :: int
  limit :: int
  pages :: jsnum
  hasNextPage :: bool
  hasPrevPage :: bool

record employee_connection =
  data :: "employee list"
  pagination :: pagination_info

section \<open>The record store\<close>

text \<open>
  The collection is the list of its documents. What MongoDB decides by itself is a parameter:
  whether a case-insensitive \<^verbatim>\<open>$regex\<close> matches a string, how two documents compare on
  a field, and which documents a \<^verbatim>\<open>$text\<close> search hits and how their scores compare.
\<close>

record mongo =
  regex_i :: "string \<Rightarrow> string \<Rightarrow> bool"
  field_le :: "string \<Rightarrow> employee \<Rightarrow> employee \<Rightarrow> bool"
  text_hit :: "string \<Rightarrow> employee \<Rightarrow> bool"
  score_ge :: "string \<Rightarrow> employee \<Rightarrow> employee \<Rightarrow> bool"

definition matches :: "mongo \<Rightarrow> query \<Rightarrow> employee \<Rightarrow> bool" where
  "matches M q e =
     (isActive e = q_isActive q
      \<and> (case q_name q of None \<Rightarrow> True | Some p \<Rightarrow> regex_i M p (name e))
      \<and> (case q_email q of None \<Rightarrow> True | Some p \<Rightarrow> regex_i M p (email e))
      \<and> (case q_class q of None \<Rightarrow> True | Some c \<Rightarrow> emp_class e = c)
      \<and> (case q_department q of None \<Rightarrow> True | Some d \<Rightarrow> department e = Some d)
      \<and> (case q_age q of None \<Rightarrow> True
          | Some b \<Rightarrow> (case gte b of None \<Rightarrow> True | Some lo \<Rightarrow> lo \<le> age e)
                    \<and> (case lte b of None \<Rightarrow> True | Some hi \<Rightarrow> age e \<le> hi))
      \<and> (case q_subjects q of None \<Rightarrow> True | Some s \<Rightarrow> s \<in> set (subjects e)))"

fun insert_by :: "('a \<Rightarrow> 'a \<Rightarrow> bool) \<Rightarrow> 'a \<Rightarrow> 'a list \<Rightarrow> 'a list" where
  "insert_by le x [] = [x]"
| "insert_by le x (y # ys) = (if le x y then x # y # ys else y # insert_by le x ys)"

definition sort_by :: "('a \<Rightarrow> 'a \<Rightarrow> bool) \<Rightarrow> 'a list \<Rightarrow> 'a list" where
  "sort_by le xs = foldr (insert_by le) xs []"

text \<open>
  \<^verbatim>\<open>.skip(s).limit(l)\<close>: the server refuses a negative skip; a limit of zero is no limit
  and a negative limit counts as its absolute value.
\<close>

definition skip_limit :: "int \<Rightarrow> int \<Rightarrow> 'a list \<Rightarrow> error + 'a list" where
  "skip_limit skip lmt xs =
     (if skip < 0 then Inl MongoServerError
      else Inr (if lmt = 0 then drop (nat skip) xs else take (nat \<bar>lmt\<bar>) (drop (nat skip) xs)))"

definition find_employees ::
  "mongo \<Rightarrow> query \<Rightarrow> string \<Rightarrow> int \<Rightarrow> int \<Rightarrow> int \<Rightarrow> employee list \<Rightarrow> error + employee list" where
  "find_employees M q sortField sortOrder skip lmt docs =
     skip_limit skip lmt
       (sort_by (if sortOrder = 1 then field_le M sortField else (\<lambda>a b. field_le M sortField b a))
          (filter (matches M q) docs))"

definition countDocuments :: "('a \<Rightarrow> bool) \<Rightarrow> 'a list \<Rightarrow> nat" where
  "countDocuments p docs = length (filter p docs)"

section \<open>CacheService\<close>

text \<open>
  Redis holds strings under string keys. The services write under two prefixes only:
  \<^verbatim>\<open>employees:\<close> followed by the serialised \<^verbatim>\<open>{query, skip, limit, sort}\<close>, holding a
  serialised list result, and \<^verbatim>\<open>employee:\<close> followed by an id, holding a serialised employee. The two
  prefixes are the two association lists \<open>lists\<close> and \<open>records\<close>, each with at most one
  entry for a key; the pattern \<^verbatim>\<open>employees:*\<close> matches every key of the first and none of the
  second. Each entry keeps the time to live it was stored with; expiry itself is not modelled.
  \<open>faults\<close> tells, call by call, whether the next command sent to the Redis client throws; an
  empty list means no further command throws. Logging is left out.
\<close>

record list_key =
  k_query :: query
  k_skip :: int
  k_limit :: int
  k_sort :: sort_input

record cache =
  isConnected :: bool
  faults :: "bool list"
  lists :: "(list_key \<times> (employee_connection \<times> int option)) list"
  records :: "(string \<times> (employee \<times> int option)) list"

definition client_call :: "cache \<Rightarrow> bool \<times> cache" where
  "client_call c = (case faults c of [] \<Rightarrow> (False, c) | f # fs \<Rightarrow> (f, c\<lparr>faults := fs\<rparr>))"

type_synonym ('k, 'v) namespace = "('k \<times> ('v \<times> int option)) list"

definition cache_get :: "(cache \<Rightarrow> ('k, 'v) namespace) \<Rightarrow> 'k \<Rightarrow> cache \<Rightarrow> 'v option \<times> cache" where
  "cache_get ns key c =
     (if \<not> isConnected c then (None, c)
      else (case client_call c of
              (True, c') \<Rightarrow> (None, c')
            | (False, c') \<Rightarrow> (map_option fst (map_of (ns c') key), c')))"

definition cache_set ::
  "((('k, 'v) namespace \<Rightarrow> ('k, 'v) namespace) \<Rightarrow> cache \<Rightarrow> cache)
     \<Rightarrow> 'k \<Rightarrow> 'v \<Rightarrow> int option \<Rightarrow> cache \<Rightarrow> cache" where
  "cache_set ns_update key v ttl c =
     (if \<not> isConnected c then c
      else (case client_call c of
              (True, c') \<Rightarrow> c'
            | (False, c') \<Rightarrow>
                ns_update (AList.update key (v, if ttl = None \<or> ttl = Some 0 then None else ttl)) c'))"

definition cache_delete ::
  "((('k, 'v) namespace \<Rightarrow> ('k, 'v) namespace) \<Rightarrow> cache \<Rightarrow> cache)
     \<Rightarrow> 'k \<Rightarrow> cache \<Rightarrow> cache" where
  "cache_delete ns_update key c =
     (if \<not> isConnected c then c
      else (case client_call c of
              (True, c') \<Rightarrow> c'
            | (False, c') \<Rightarrow> ns_update (AList.delete key) c'))"

text \<open>
  \<^verbatim>\<open>deletePattern('employees:*')\<close>: one \<^verbatim>\<open>KEYS\<close> command, then one \<^verbatim>\<open>DEL\<close> of all the
  keys found when there are any, both inside the same \<^verbatim>\<open>try\<close>.
\<close>

definition cache_deletePattern :: "cache \<Rightarrow> cache" where
  "cache_deletePattern c =
     (if \<not> isConnected c then c
      else (case client_call c of
              (True, c') \<Rightarrow> c'
            | (False, c') \<Rightarrow>
                if lists c' = [] then c'
                else (case client_call c' of
                        (True, c'') \<Rightarrow> c''
                      | (False, c'') \<Rightarrow> c''\<lparr>lists := []\<rparr>)))"

section \<open>EmployeeService: reading\<close>

record state =
  db :: "employee list"
  redis :: cache

definition CACHE_TTL :: int where
  "CACHE_TTL = 300"

definition maxPageSize :: int where
  "maxPageSize = 100"

definition truthy_str :: "string option \<Rightarrow> bool" where
  "truthy_str s = (case s of None \<Rightarrow> False | Some x \<Rightarrow> x \<noteq> [])"

definition truthy_num :: "int option \<Rightarrow> bool" where
  "truthy_num n = (case n of None \<Rightarrow> False | Some x \<Rightarrow> x \<noteq> 0)"

definition build_query :: "employee_filter \<Rightarrow> query" where
  "build_query flt =
     \<lparr> q_isActive = (case f_isActive flt of None \<Rightarrow> True | Some b \<Rightarrow> b),
       q_name = (if truthy_str (f_name flt) then f_name flt else None),
       q_email = (if truthy_str (f_email flt) then f_email flt else None),
       q_class = (if truthy_str (f_class flt) then f_class flt else None),
       q_department = (if truthy_str (f_department flt) then f_department flt else None),
       q_age = (if truthy_num (f_ageMin flt) \<or> truthy_num (f_ageMax flt)
                then Some \<lparr> gte = (if truthy_num (f_ageMin flt) then f_ageMin flt else None),
                            lte = (if truthy_num (f_ageMax flt) then f_ageMax flt else None) \<rparr>
                else None),
       q_subjects = (if truthy_str (f_subject flt) then f_subject flt else None) \<rparr>"

definition js_ceil_div :: "int \<Rightarrow> int \<Rightarrow> jsnum" where
  "js_ceil_div a b =
     (if b = 0 then (if a = 0 then NaN else if 0 < a then Infinity else NegInfinity)
      else Num (- ((- a) div b)))"

fun js_less :: "int \<Rightarrow> jsnum \<Rightarrow> bool" where
  "js_less p (Num n) = (p < n)"
| "js_less p Infinity = True"
| "js_less p NegInfinity = False"
| "js_less p NaN = False"

definition page_envelope :: "employee list \<Rightarrow> int \<Rightarrow> int \<Rightarrow> int \<Rightarrow> employee_connection" where
  "page_envelope dat tot pg lmt =
     (let pgs = js_ceil_div tot lmt in
      \<lparr> data = dat,
        pagination = \<lparr> total = tot, page = pg, limit = lmt, pages = pgs,
                       hasNextPage = js_less pg pgs, hasPrevPage = (1 < pg) \<rparr> \<rparr>)"

text \<open>
  The part of \<^verbatim>\<open>getEmployees\<close> after the cache miss: the two store queries and the result.
  Of the ways the store can refuse a query only the negative skip is modelled; a pattern the
  server does not accept as a \<^verbatim>\<open>$regex\<close> is not.
\<close>

definition fetch_page ::
  "mongo \<Rightarrow> query \<Rightarrow> sort_input \<Rightarrow> int \<Rightarrow> int \<Rightarrow> int \<Rightarrow> employee list \<Rightarrow> error + employee_connection" where
  "fetch_page M q srt pg lmt skip docs =
     (let sortOrder = (if s_order srt = Some ASC then 1 else - 1);
          sortField = (case s_field srt of None \<Rightarrow> ''createdAt''
                       | Some f \<Rightarrow> if f = [] then ''createdAt'' else f)
      in case find_employees M q sortField sortOrder skip lmt docs of
           Inl e \<Rightarrow> Inl e
         | Inr dat \<Rightarrow> Inr (page_envelope dat (int (countDocuments (matches M q) docs)) pg lmt))"

text \<open>
  The arguments of \<^verbatim>\<open>getEmployees\<close> with their defaults. \<open>None\<close> is an argument or a field
  that is absent (\<^verbatim>\<open>undefined\<close>), for which JavaScript takes the default; an explicit
  \<^verbatim>\<open>null\<close>, for which it does not, is not modelled.
\<close>

definition list_request :: "employee_filter \<Rightarrow> pagination_input option \<Rightarrow> sort_input option
    \<Rightarrow> query \<times> sort_input \<times> int \<times> int \<times> int" where
  "list_request flt paging sorting =
     (let pgn = (case paging of None \<Rightarrow> \<lparr> p_page = Some 1, p_limit = Some 10 \<rparr> | Some p \<Rightarrow> p);
          srt = (case sorting of None \<Rightarrow> \<lparr> s_field = Some ''createdAt'', s_order = Some DESC \<rparr>
                 | Some s \<Rightarrow> s);
          pg = (case p_page pgn of None \<Rightarrow> 1 | Some n \<Rightarrow> n);
          lmt = (case p_limit pgn of None \<Rightarrow> 10 | Some n \<Rightarrow> n)
      in (build_query flt, srt, pg, lmt, (pg - 1) * lmt))"

definition getEmployees ::
  "mongo \<Rightarrow> employee_filter \<Rightarrow> pagination_input option \<Rightarrow> sort_input option \<Rightarrow> state
     \<Rightarrow> (error + employee_connection) \<times> state" where
  "getEmployees M flt paging sorting st =
     (case list_request flt paging sorting of
        (q, srt, pg, lmt, skip) \<Rightarrow>
          (let cacheKey = \<lparr> k_query = q, k_skip = skip, k_limit = lmt, k_sort = srt \<rparr>
           in case cache_get lists cacheKey (redis st) of
                (Some cached, c1) \<Rightarrow> (Inr cached, st\<lparr>redis := c1\<rparr>)
              | (None, c1) \<Rightarrow>
                  (case fetch_page M q srt pg lmt skip (db st) of
                     Inl e \<Rightarrow> (Inl e, st\<lparr>redis := c1\<rparr>)
                   | Inr result \<Rightarrow>
                       (Inr result,
                        st\<lparr>redis := cache_set lists_update cacheKey result (Some CACHE_TTL) c1\<rparr>))))"

definition findById :: "string \<Rightarrow> employee list \<Rightarrow> employee option" where
  "findById rid docs = find (\<lambda>d. oid d = rid) docs"

definition getEmployeeById :: "string \<Rightarrow> state \<Rightarrow> employee option \<times> state" where
  "getEmployeeById rid st =
     (case cache_get records rid (redis st) of
        (Some cached, c1) \<Rightarrow> (Some cached, st\<lparr>redis := c1\<rparr>)
      | (None, c1) \<Rightarrow>
          (case findById rid (db st) of
             None \<Rightarrow> (None, st\<lparr>redis := c1\<rparr>)
           | Some employee \<Rightarrow>
               (Some employee,
                st\<lparr>redis := cache_set records_update rid employee (Some CACHE_TTL) c1\<rparr>)))"

text \<open>
  \<^verbatim>\<open>searchEmployees\<close> does not use the cache; the hits of the text search are the active
  documents the search matches, best score first.
\<close>

definition searchEmployees ::
  "mongo \<Rightarrow> string \<Rightarrow> pagination_input option \<Rightarrow> employee list \<Rightarrow> error + employee_connection" where
  "searchEmployees M searchQuery paging docs =
     (let pgn = (case paging of None \<Rightarrow> \<lparr> p_page = None, p_limit = None \<rparr> | Some p \<Rightarrow> p);
          pg = (case p_page pgn of None \<Rightarrow> 1 | Some n \<Rightarrow> n);
          lmt = (case p_limit pgn of None \<Rightarrow> 10 | Some n \<Rightarrow> n);
          skip = (pg - 1) * lmt;
          hit = (\<lambda>e. text_hit M searchQuery e \<and> isActive e)
      in case skip_limit skip lmt (sort_by (score_ge M searchQuery) (filter hit docs)) of
           Inl e \<Rightarrow> Inl e
         | Inr dat \<Rightarrow> Inr (page_envelope dat (int (countDocuments hit docs)) pg lmt))"

section \<open>The schema's validators and hook\<close>

text \<open>
  The validators \<^verbatim>\<open>EmployeeSchema\<close> declares: \<^verbatim>\<open>required\<close>, \<^verbatim>\<open>min\<close>, \<^verbatim>\<open>max\<close>, the
  \<^verbatim>\<open>subjects\<close> validator and the \<^verbatim>\<open>match\<close> of the e-mail against
  \<^verbatim>\<open>/^\S+@\S+\.\S+$/\<close>, with the ASCII white space as \<^verbatim>\<open>\s\<close>.
\<close>

definition is_space :: "char \<Rightarrow> bool" where
  "is_space c = (c \<in> set [CHR '' '', CHR 0x09, CHR 0x0A, CHR 0x0B, CHR 0x0C, CHR 0x0D])"

fun at_then_dot :: "bool \<Rightarrow> string \<Rightarrow> bool" where
  "at_then_dot seen [] = False"
| "at_then_dot seen (c # cs) =
     ((seen \<and> c = CHR ''@'' \<and> CHR ''.'' \<in> set (butlast (tl cs))) \<or> at_then_dot True cs)"

definition email_match :: "string \<Rightarrow> bool" where
  "email_match s = (list_all (\<lambda>c. \<not> is_space c) s \<and> at_then_dot False s)"

definition validate_employee :: "employee \<Rightarrow> bool" where
  "validate_employee d =
     (employeeId d \<noteq> [] \<and> name d \<noteq> [] \<and> email d \<noteq> [] \<and> email_match (email d)
      \<and> 18 \<le> age d \<and> age d \<le> 70 \<and> emp_class d \<noteq> [] \<and> 0 < length (subjects d)
      \<and> (case salary d of None \<Rightarrow> True | Some x \<Rightarrow> 0 \<le> x) \<and> createdBy d \<noteq> [])"

record create_input =
  c_name :: string
  c_email :: string
  c_age :: int
  c_class :: string
  c_subjects :: "string list"
  c_salary :: "rat option"
  c_department :: "string option"

record update_input =
  u_name :: "string option"
  u_email :: "string option"
  u_age :: "int option"
  u_class :: "string option"
  u_subjects :: "string list option"
  u_salary :: "rat option"
  u_department :: "string option"
  u_isActive :: "bool option"

text \<open>\<^verbatim>\<open>runValidators: true\<close> runs the validators of the paths the update sets.\<close>

definition validate_update :: "update_input \<Rightarrow> bool" where
  "validate_update input =
     ((case u_name input of None \<Rightarrow> True | Some x \<Rightarrow> x \<noteq> [])
      \<and> (case u_email input of None \<Rightarrow> True | Some x \<Rightarrow> x \<noteq> [] \<and> email_match x)
      \<and> (case u_age input of None \<Rightarrow> True | Some x \<Rightarrow> 18 \<le> x \<and> x \<le> 70)
      \<and> (case u_class input of None \<Rightarrow> True | Some x \<Rightarrow> x \<noteq> [])
      \<and> (case u_subjects input of None \<Rightarrow> True | Some x \<Rightarrow> 0 < length x)
      \<and> (case u_salary input of None \<Rightarrow> True | Some x \<Rightarrow> 0 \<le> x))"

fun digits :: "nat \<Rightarrow> string" where
  "digits n = (if n < 10 then [char_of (48 + n)] else digits (n div 10) @ [char_of (48 + n mod 10)])"

declare digits.simps [simp del]

definition padStart :: "nat \<Rightarrow> char \<Rightarrow> string \<Rightarrow> string" where
  "padStart n c s = replicate (n - length s) c @ s"

text \<open>
  The \<^verbatim>\<open>pre('save')\<close> hook gives a new document without a code the next sequential one.
  Mongoose validates a document before it runs the hooks a schema registers with
  \<^verbatim>\<open>pre('save')\<close>, so the validators see the document as it was built: one without a code
  fails \<^verbatim>\<open>required\<close> before the hook is reached. The unique indexes (\<^verbatim>\<open>_id\<close>,
  \<^verbatim>\<open>employeeId\<close>, \<^verbatim>\<open>email\<close>) are the server's.
\<close>

definition pre_save :: "employee list \<Rightarrow> employee \<Rightarrow> employee" where
  "pre_save docs d =
     (if employeeId d = []
      then d\<lparr>employeeId := ''EMP'' @ padStart 6 (CHR ''0'') (digits (length docs + 1))\<rparr>
      else d)"

definition save :: "employee \<Rightarrow> employee list \<Rightarrow> error + (employee \<times> employee list)" where
  "save doc docs =
     (if \<not> validate_employee doc then Inl ValidationError
      else (let d = pre_save docs doc in
            if list_ex (\<lambda>x. oid x = oid d \<or> employeeId x = employeeId d \<or> email x = email d) docs
            then Inl MongoServerError
            else Inr (d, docs @ [d])))"

fun update_first :: "('a \<Rightarrow> bool) \<Rightarrow> ('a \<Rightarrow> 'a) \<Rightarrow> 'a list \<Rightarrow> 'a list" where
  "update_first p f [] = []"
| "update_first p f (x # xs) = (if p x then f x # xs else x # update_first p f xs)"

text \<open>\<^verbatim>\<open>findByIdAndUpdate(id, update, {new: true})\<close>: the updated document, or nothing.\<close>

definition findByIdAndUpdate ::
  "string \<Rightarrow> (employee \<Rightarrow> employee) \<Rightarrow> employee list \<Rightarrow> employee option \<times> employee list" where
  "findByIdAndUpdate rid f docs =
     (case findById rid docs of
        None \<Rightarrow> (None, docs)
      | Some d \<Rightarrow> (Some (f d), update_first (\<lambda>x. oid x = rid) f docs))"

definition apply_set :: "update_input \<Rightarrow> employee \<Rightarrow> employee" where
  "apply_set input d =
     d\<lparr> name := (case u_name input of None \<Rightarrow> name d | Some x \<Rightarrow> x),
        email := (case u_email input of None \<Rightarrow> email d | Some x \<Rightarrow> x),
        age := (case u_age input of None \<Rightarrow> age d | Some x \<Rightarrow> x),
        emp_class := (case u_class input of None \<Rightarrow> emp_class d | Some x \<Rightarrow> x),
        subjects := (case u_subjects input of None \<Rightarrow> subjects d | Some x \<Rightarrow> x),
        salary := (case u_salary input of None \<Rightarrow> salary d | Some x \<Rightarrow> Some x),
        department := (case u_department input of None \<Rightarrow> department d | Some x \<Rightarrow> Some x),
        isActive := (case u_isActive input of None \<Rightarrow> isActive d | Some x \<Rightarrow> x) \<rparr>"

section \<open>EmployeeService: writing\<close>

definition createEmployee ::
  "string \<Rightarrow> create_input \<Rightarrow> string \<Rightarrow> state \<Rightarrow> (error + employee) \<times> state" where
  "createEmployee new_oid input creator st =
     (if list_ex (\<lambda>d. email d = c_email input) (db st)
      then (Inl (GraphQLError ''Employee with this email already exists'' ''DUPLICATE_EMAIL''), st)
      else (case save \<lparr> oid = new_oid, employeeId = [], name = c_name input,
                        email = c_email input, age = c_age input, emp_class = c_class input,
                        subjects = c_subjects input, attendance = [], salary = c_salary input,
                        department = c_department input, isActive = True,
                        createdBy = creator \<rparr> (db st) of
              Inl e \<Rightarrow> (Inl e, st)
            | Inr (employee, docs) \<Rightarrow>
                (Inr employee, \<lparr> db = docs, redis = cache_deletePattern (redis st) \<rparr>)))"

definition updateEmployee ::
  "string \<Rightarrow> update_input \<Rightarrow> state \<Rightarrow> (error + employee option) \<times> state" where
  "updateEmployee rid input st =
     (if truthy_str (u_email input)
         \<and> list_ex (\<lambda>d. Some (email d) = u_email input \<and> oid d \<noteq> rid) (db st)
      then (Inl (GraphQLError ''Email already in use'' ''DUPLICATE_EMAIL''), st)
      else if \<not> validate_update input then (Inl ValidationError, st)
      else if u_email input \<noteq> None
              \<and> findById rid (db st) \<noteq> None
              \<and> list_ex (\<lambda>d. Some (email d) = u_email input \<and> oid d \<noteq> rid) (db st)
      then (Inl MongoServerError, st)
      else (case findByIdAndUpdate rid (apply_set input) (db st) of
              (None, docs) \<Rightarrow> (Inr None, st)
            | (Some employee, docs) \<Rightarrow>
                (Inr (Some employee),
                 \<lparr> db = docs,
                   redis = cache_deletePattern (cache_delete records_update rid (redis st)) \<rparr>)))"

definition deleteEmployee :: "string \<Rightarrow> state \<Rightarrow> bool \<times> state" where
  "deleteEmployee rid st =
     (case findByIdAndUpdate rid (\<lambda>d. d\<lparr>isActive := False\<rparr>) (db st) of
        (None, docs) \<Rightarrow> (False, st)
      | (Some employee, docs) \<Rightarrow>
          (True,
           \<lparr> db = docs,
             redis = cache_deletePattern (cache_delete records_update rid (redis st)) \<rparr>))"

definition markAttendance :: "string \<Rightarrow> attendance_entry \<Rightarrow> state \<Rightarrow> employee option \<times> state" where
  "markAttendance empId att st =
     (case findByIdAndUpdate empId (\<lambda>d. d\<lparr>attendance := attendance d @ [att]\<rparr>) (db st) of
        (None, docs) \<Rightarrow> (None, st)
      | (Some employee, docs) \<Rightarrow>
          (Some employee,
           \<lparr> db = docs, redis = cache_delete records_update empId (redis st) \<rparr>))"

section \<open>EmployeeService: statistics\<close>








section \<open>The resolvers\<close>

text \<open>
  The context's user is \<open>None\<close> for a request without a verified token. A resolver's result
  is the service's, with the service's \<^verbatim>\<open>null\<close> turned into \<^verbatim>\<open>NOT_FOUND\<close>.
\<close>

definition not_authenticated :: error where
  "not_authenticated = GraphQLError ''Not authenticated'' ''UNAUTHENTICATED''"

definition not_found :: error where
  "not_found = GraphQLError ''Employee not found'' ''NOT_FOUND''"

definition empty_filter :: employee_filter where
  "empty_filter = \<lparr> f_oid = None, f_name = None, f_email = None, f_class = None,
                    f_department = None, f_ageMin = None, f_ageMax = None, f_isActive = None,
                    f_subject = None \<rparr>"

definition employees_resolver ::
  "mongo \<Rightarrow> employee_filter \<Rightarrow> pagination_input option \<Rightarrow> sort_input option
     \<Rightarrow> context_user option \<Rightarrow> state \<Rightarrow> (error + employee_connection) \<times> state" where
  "employees_resolver M flt paging sorting ctx st =
     (case ctx of
        None \<Rightarrow> (Inl not_authenticated, st)
      | Some u \<Rightarrow>
          (let queryFilter = (if role u = EMPLOYEE \<and> employeeRef u \<noteq> None
                              then empty_filter\<lparr>f_oid := employeeRef u\<rparr> else flt)
           in getEmployees M queryFilter paging sorting st))"

definition employee_resolver ::
  "string \<Rightarrow> context_user option \<Rightarrow> state \<Rightarrow> (error + employee) \<times> state" where
  "employee_resolver rid ctx st =
     (case ctx of
        None \<Rightarrow> (Inl not_authenticated, st)
      | Some u \<Rightarrow>
          if role u = EMPLOYEE \<and> employeeRef u \<noteq> Some rid
          then (Inl (GraphQLError ''Not authorized to view this employee'' ''FORBIDDEN''), st)
          else (case getEmployeeById rid st of
                  (None, st') \<Rightarrow> (Inl not_found, st')
                | (Some employee, st') \<Rightarrow> (Inr employee, st')))"

fun join :: "string \<Rightarrow> string list \<Rightarrow> string" where
  "join sep [] = []"
| "join sep [x] = x"
| "join sep (x # y # ys) = x @ sep @ join sep (y # ys)"

definition allowedFields :: "string list" where
  "allowedFields = [''subjects'', ''class'']"

text \<open>\<^verbatim>\<open>Object.keys(input)\<close>: the fields the update gives, in the order of the input type.\<close>

definition input_keys :: "update_input \<Rightarrow> string list" where
  "input_keys input =
     (if u_name input \<noteq> None then [''name''] else [])
     @ (if u_email input \<noteq> None then [''email''] else [])
     @ (if u_age input \<noteq> None then [''age''] else [])
     @ (if u_class input \<noteq> None then [''class''] else [])
     @ (if u_subjects input \<noteq> None then [''subjects''] else [])
     @ (if u_salary input \<noteq> None then [''salary''] else [])
     @ (if u_department input \<noteq> None then [''department''] else [])
     @ (if u_isActive input \<noteq> None then [''isActive''] else [])"

definition restrictedFields :: "update_input \<Rightarrow> string list" where
  "restrictedFields input = filter (\<lambda>key. key \<notin> set allowedFields) (input_keys input)"

definition updateEmployee_resolver ::
  "string \<Rightarrow> update_input \<Rightarrow> context_user option \<Rightarrow> state \<Rightarrow> (error + employee) \<times> state" where
  "updateEmployee_resolver rid input ctx st =
     (case ctx of
        None \<Rightarrow> (Inl not_authenticated, st)
      | Some u \<Rightarrow>
          if role u = EMPLOYEE \<and> employeeRef u \<noteq> Some rid
          then (Inl (GraphQLError ''Not authorized'' ''FORBIDDEN''), st)
          else if role u = EMPLOYEE \<and> 0 < length (restrictedFields input)
          then (Inl (GraphQLError (''Employees can only update: '' @ join '', '' allowedFields)
                       ''FORBIDDEN''), st)
          else (case updateEmployee rid input st of
                  (Inl e, st') \<Rightarrow> (Inl e, st')
                | (Inr None, st') \<Rightarrow> (Inl not_found, st')
                | (Inr (Some employee), st') \<Rightarrow> (Inr employee, st')))"

definition markAttendance_resolver ::
  "string \<Rightarrow> attendance_entry \<Rightarrow> context_user option \<Rightarrow> state \<Rightarrow> (error + employee) \<times> state" where
  "markAttendance_resolver empId att ctx st =
     (case ctx of
        None \<Rightarrow> (Inl not_authenticated, st)
      | Some u \<Rightarrow>
          if role u = EMPLOYEE \<and> employeeRef u \<noteq> Some empId
          then (Inl (GraphQLError ''Not authorized'' ''FORBIDDEN''), st)
          else (case markAttendance empId att st of
                  (None, st') \<Rightarrow> (Inl not_found, st')
                | (Some employee, st') \<Rightarrow> (Inr employee, st')))"

section \<open>Invariants of the reachable states\<close>

text \<open>
  What \<^verbatim>\<open>getEmployees\<close> computes for the pagination block, and what therefore holds of
  every list result the cache was given: its block is consistent, its limit is the one of its
  key, and its records had the active flag its key's query asks for.
\<close>

definition pagination_ok :: "pagination_info \<Rightarrow> bool" where
  "pagination_ok p =
     (0 \<le> total p
      \<and> pages p = js_ceil_div (total p) (limit p)
      \<and> hasNextPage p = js_less (page p) (pages p)
      \<and> hasPrevPage p = (1 < page p))"

definition lists_ok :: "cache \<Rightarrow> bool" where
  "lists_ok c =
     list_all (\<lambda>(k, v, t). limit (pagination v) = k_limit k
                 \<and> pagination_ok (pagination v)
                 \<and> list_all (\<lambda>e. isActive e = q_isActive (k_query k)) (data v))
       (lists c)"

text \<open>
  The invariant of the page block in the specification's words, with the ceiling of the
  rationals.
\<close>

definition page_spec_invariant :: "pagination_info \<Rightarrow> bool" where
  "page_spec_invariant p =
     (pages p = Num \<lceil>(of_int (total p) :: rat) / of_int (limit p)\<rceil>
      \<and> hasNextPage p = (page p < \<lceil>(of_int (total p) :: rat) / of_int (limit p)\<rceil>)
      \<and> hasPrevPage p = (1 < page p))"

text \<open>What the schema's unique indexes and \<^verbatim>\<open>required\<close> e-mail give of the collection.\<close>

definition store_ok :: "employee list \<Rightarrow> bool" where
  "store_ok docs =
     (distinct (map oid docs) \<and> distinct (map email docs) \<and> list_all (\<lambda>d. email d \<noteq> []) docs)"

text \<open>
  The cache fails for the next operation when the service is not connected or the next
  command sent to the client throws.
\<close>

definition failing :: "cache \<Rightarrow> bool" where
  "failing c = (\<not> isConnected c \<or> (case faults c of [] \<Rightarrow> False | f # fs \<Rightarrow> f))"

text \<open>A message names the allowed fields when each of them occurs in it.\<close>

fun contains :: "string \<Rightarrow> string \<Rightarrow> bool" where
  "contains [] t = (t = [])"
| "contains (c # cs) t = (take (length t) (c # cs) = t \<or> contains cs t)"

definition names_allowed_fields :: "string \<Rightarrow> bool" where
  "names_allowed_fields msg = list_all (contains msg) allowedFields"

section \<open>Sample values\<close>

definition plain_mongo :: mongo where
  "plain_mongo = \<lparr> regex_i = (\<lambda>p s. True), field_le = (\<lambda>f a b. True),
                    text_hit = (\<lambda>q e. True), score_ge = (\<lambda>q a b. True) \<rparr>"

definition jane :: employee where
  "jane = \<lparr> oid = ''e1'', employeeId = ''EMP000001'', name = ''Jane Smith'',
            email = ''jane@x.com'', age = 28, emp_class = ''Grade 10'', subjects = [''Math''],
            attendance = [], salary = None, department = None, isActive = True,
            createdBy = ''u1'' \<rparr>"

definition john :: employee where
  "john = \<lparr> oid = ''e2'', employeeId = ''EMP000002'', name = ''John Doe'',
            email = ''john@example.com'', age = 30, emp_class = ''Grade 10'',
            subjects = [''Math'', ''Physics''], attendance = [], salary = Some 50000,
            department = Some ''Science'', isActive = True, createdBy = ''u1'' \<rparr>"

definition healthy_cache :: cache where
  "healthy_cache = \<lparr> isConnected = True, faults = [], lists = [], records = [] \<rparr>"

definition member_of :: "string option \<Rightarrow> context_user" where
  "member_of ref = \<lparr> user_id = ''u2'', user_email = ''member@example.com'', role = EMPLOYEE,
                     employeeRef = ref \<rparr>"

definition admin :: context_user where
  "admin = \<lparr> user_id = ''u1'', user_email = ''admin@example.com'', role = ADMIN,
             employeeRef = None \<rparr>"

definition no_update :: update_input where
  "no_update = \<lparr> u_name = None, u_email = None, u_age = None, u_class = None,
                 u_subjects = None, u_salary = None, u_department = None, u_isActive = None \<rparr>"

definition jane_page :: employee_connection where
  "jane_page = \<lparr> data = [jane],
                 pagination = \<lparr> total = 1, page = 1, limit = 10, pages = Num 1,
                                hasNextPage = False, hasPrevPage = False \<rparr> \<rparr>"

definition jane_again :: create_input where
  "jane_again = \<lparr> c_name = ''Jane S.'', c_email = ''jane@x.com'', c_age = 31,
                  c_class = ''Grade 11'', c_subjects = [''Art''], c_salary = None,
                  c_department = None \<rparr>"

definition present_today :: attendance_entry where
  "present_today = \<lparr> date = ''2024-01-15'', status = present, remarks = None \<rparr>"

definition default_key :: list_key where
  "default_key = \<lparr> k_query = build_query empty_filter, k_skip = 0, k_limit = 10,
                   k_sort = \<lparr> s_field = Some ''createdAt'', s_order = Some DESC \<rparr> \<rparr>"

definition warm_cache :: cache where
  "warm_cache = \<lparr> isConnected = True, faults = [],
                  lists = [(default_key, (jane_page, Some 300))],
                  records = [(''e1'', (jane, Some 300))] \<rparr>"

definition jane_attended :: employee where
  "jane_attended = jane\<lparr>attendance := [present_today]\<rparr>"

definition absent_today :: attendance_entry where
  "absent_today = \<lparr> date = ''2024-01-16'', status = absent, remarks = Some ''sick'' \<rparr>"

definition roster :: "employee list" where
  "roster = [jane\<lparr>attendance := [present_today, present_today, absent_today, present_today]\<rparr>,
             john,
             jane\<lparr>oid := ''e3'', employeeId := ''EMP000003'', email := ''joan@x.com'',
                  department := Some ''Arts'', isActive := False\<rparr>]"

section \<open>Auxiliary facts\<close>

lemmas sample_defs = jane_page_def plain_mongo_def jane_def john_def healthy_cache_def
  member_of_def admin_def no_update_def present_today_def

lemmas sample_defs2 = default_key_def warm_cache_def jane_attended_def absent_today_def roster_def

lemmas read_defs = getEmployees_def list_request_def build_query_def empty_filter_def
  truthy_str_def truthy_num_def cache_get_def cache_set_def client_call_def fetch_page_def
  find_employees_def skip_limit_def sort_by_def matches_def page_envelope_def js_ceil_div_def
  countDocuments_def CACHE_TTL_def

lemmas resolver_defs = updateEmployee_resolver_def employee_resolver_def markAttendance_resolver_def
  employees_resolver_def restrictedFields_def input_keys_def allowedFields_def not_found_def
  not_authenticated_def

lemmas write_defs = updateEmployee_def deleteEmployee_def markAttendance_def findByIdAndUpdate_def
  findById_def apply_set_def validate_update_def cache_delete_def cache_deletePattern_def

lemma restricted_nonempty:
  "k \<in> set (input_keys input) \<Longrightarrow> k \<notin> set allowedFields \<Longrightarrow> 0 < length (restrictedFields input)"
  by (auto simp: restrictedFields_def filter_empty_conv)

lemma set_insert_by: "set (insert_by le x xs) = insert x (set xs)"
  by (induction xs) auto

lemma set_sort_by: "set (sort_by le xs) = set xs"
  by (induction xs) (auto simp: sort_by_def set_insert_by)

lemma skip_limit_subset: "skip_limit s l xs = Inr ys \<Longrightarrow> set ys \<subseteq> set xs"
  by (auto simp: skip_limit_def split: if_splits dest: in_set_takeD in_set_dropD)

lemma page_envelope_ok:
  "0 \<le> tot \<Longrightarrow> pagination_ok (pagination (page_envelope dat tot pg lmt))"
  by (simp add: page_envelope_def pagination_ok_def Let_def)

lemma page_envelope_fields:
  "limit (pagination (page_envelope dat tot pg lmt)) = lmt"
  "page (pagination (page_envelope dat tot pg lmt)) = pg"
  "total (pagination (page_envelope dat tot pg lmt)) = tot"
  "data (page_envelope dat tot pg lmt) = dat"
  by (simp_all add: page_envelope_def Let_def)

lemma fetch_page_ok:
  assumes "fetch_page M q srt pg lmt skip docs = Inr env"
  shows "pagination_ok (pagination env)" and "limit (pagination env) = lmt"
    and "page (pagination env) = pg"
    and "list_all (\<lambda>e. isActive e = q_isActive q) (data env)"
proof -
  from assms obtain dat where
    f: "find_employees M q (case s_field srt of None \<Rightarrow> ''createdAt''
                       | Some f \<Rightarrow> if f = [] then ''createdAt'' else f) (if s_order srt = Some ASC then 1 else - 1) skip lmt docs = Inr dat"
    and e: "env = page_envelope dat (int (countDocuments (matches M q) docs)) pg lmt"
    by (auto simp: fetch_page_def Let_def split: sum.splits)
  show "pagination_ok (pagination env)" unfolding e by (rule page_envelope_ok) simp
  show "limit (pagination env) = lmt" "page (pagination env) = pg"
    unfolding e by (simp_all add: page_envelope_fields)
  from f have "set dat \<subseteq> set (filter (matches M q) docs)"
    unfolding find_employees_def by (drule_tac skip_limit_subset) (simp add: set_sort_by)
  then show "list_all (\<lambda>e. isActive e = q_isActive q) (data env)"
    unfolding e by (auto simp: page_envelope_fields list_all_iff matches_def)
qed

lemma lists_ok_lookup:
  assumes "lists_ok c" and "map_of (lists c) k = Some (v, t)"
  shows "limit (pagination v) = k_limit k" and "pagination_ok (pagination v)"
    and "list_all (\<lambda>e. isActive e = q_isActive (k_query k)) (data v)"
  using assms by (auto simp: lists_ok_def list_all_iff dest!: map_of_SomeD)

lemma lists_cache_get [simp]: "lists (snd (cache_get ns k c)) = lists c"
  by (simp add: cache_get_def client_call_def split: list.splits bool.splits)

lemma list_all_alist_update:
  "list_all P al \<Longrightarrow> P (k, v) \<Longrightarrow> list_all P (AList.update k v al)"
  by (induction al) auto

lemma lists_ok_cache_set:
  assumes "lists_ok c" and "limit (pagination v) = k_limit k" and "pagination_ok (pagination v)"
    and "list_all (\<lambda>e. isActive e = q_isActive (k_query k)) (data v)"
  shows "lists_ok (cache_set lists_update k v ttl c)"
proof -
  have "lists (cache_set lists_update k v ttl c) = lists c
        \<or> (\<exists>t. lists (cache_set lists_update k v ttl c) = AList.update k (v, t) (lists c))"
    by (auto simp: cache_set_def client_call_def split: list.splits bool.splits)
  then show ?thesis
    using assms by (auto simp: lists_ok_def intro!: list_all_alist_update)
qed

lemma getEmployees_ok:
  assumes ok: "lists_ok (redis st)"
    and run: "getEmployees M flt paging sorting st = (Inr env, st')"
    and req: "list_request flt paging sorting = (q, srt, pg, lmt, skip)"
  shows "pagination_ok (pagination env) \<and> limit (pagination env) = lmt
         \<and> list_all (\<lambda>e. isActive e = q_isActive q) (data env) \<and> lists_ok (redis st')"
proof -
  let ?key = "\<lparr> k_query = q, k_skip = skip, k_limit = lmt, k_sort = srt \<rparr>"
  obtain hit c1 where g: "cache_get lists ?key (redis st) = (hit, c1)" by force
  have c1: "lists c1 = lists (redis st)" using lists_cache_get[of lists ?key "redis st"] g by simp
  then have ok1: "lists_ok c1" using ok by (simp add: lists_ok_def)
  show ?thesis
  proof (cases hit)
    case None
    with run req g obtain r where f: "fetch_page M q srt pg lmt skip (db st) = Inr r"
      and e: "env = r" and s: "st' = st\<lparr>redis := cache_set lists_update ?key r (Some CACHE_TTL) c1\<rparr>"
      by (auto simp: getEmployees_def Let_def split: sum.splits)
    have "lists_ok (cache_set lists_update ?key r (Some CACHE_TTL) c1)"
      using fetch_page_ok[OF f] ok1 by (intro lists_ok_cache_set) simp_all
    with fetch_page_ok[OF f] show ?thesis
      unfolding e s by simp
  next
    case (Some cached)
    with run req g have e: "env = cached" and s: "st' = st\<lparr>redis := c1\<rparr>"
      by (auto simp: getEmployees_def Let_def)
    from g Some obtain t where "map_of (lists (redis st)) ?key = Some (cached, t)"
      by (auto simp: cache_get_def client_call_def split: if_splits list.splits bool.splits)
    from lists_ok_lookup[OF ok this] ok1 show ?thesis
      unfolding e s by simp
  qed
qed


lemma js_ceil_div_rat:
  assumes "b \<noteq> 0"
  shows "js_ceil_div a b = Num \<lceil>(of_int a :: rat) / of_int b\<rceil>"
proof -
  have "\<lceil>(of_int a :: rat) / of_int b\<rceil> = - \<lfloor>(of_int (- a) :: rat) / of_int b\<rfloor>"
    by (simp add: ceiling_def)
  also have "\<dots> = - ((- a) div b)"
    by (simp only: floor_divide_of_int_eq)
  finally show ?thesis using assms by (simp add: js_ceil_div_def)
qed

lemma pagination_ok_spec:
  assumes "pagination_ok p" and "limit p \<noteq> 0"
  shows "page_spec_invariant p"
  using assms js_ceil_div_rat[of "limit p" "total p"]
  by (simp add: pagination_ok_def page_spec_invariant_def)

lemma searchEmployees_ok:
  assumes "searchEmployees M searchQuery paging docs = Inr env"
  shows "pagination_ok (pagination env)"
proof -
  from assms obtain dat tot pg lmt where "env = page_envelope dat (int tot) pg lmt"
    by (auto simp: searchEmployees_def Let_def split: sum.splits)
  then show ?thesis by (simp add: page_envelope_ok)
qed

lemma getEmployees_miss:
  assumes "list_request flt paging sorting = (q, srt, pg, lmt, skip)"
    and "fst (cache_get lists \<lparr> k_query = q, k_skip = skip, k_limit = lmt, k_sort = srt \<rparr> (redis st))
           = None"
  shows "fst (getEmployees M flt paging sorting st) = fetch_page M q srt pg lmt skip (db st)"
    and "db (snd (getEmployees M flt paging sorting st)) = db st"
  using assms by (auto simp: getEmployees_def Let_def split: prod.splits option.splits sum.splits)

lemma getEmployees_db [simp]: "db (snd (getEmployees M flt paging sorting st)) = db st"
  by (auto simp: getEmployees_def Let_def split: prod.splits option.splits sum.splits)

lemma failing_cases:
  "failing c \<Longrightarrow> \<not> isConnected c \<or> (\<exists>fs. faults c = True # fs)"
  by (auto simp: failing_def split: list.splits)

lemma cache_get_failing: "failing c \<Longrightarrow> fst (cache_get ns key c) = None"
  by (auto simp: cache_get_def client_call_def dest!: failing_cases)

lemma cache_set_failing:
  "failing c \<Longrightarrow> lists (cache_set lists_update k v ttl c) = lists c
      \<and> records (cache_set lists_update k v ttl c) = records c
      \<and> lists (cache_set records_update k' v' ttl c) = lists c
      \<and> records (cache_set records_update k' v' ttl c) = records c"
  by (auto simp: cache_set_def client_call_def dest!: failing_cases)

lemma cache_delete_failing:
  "failing c \<Longrightarrow> lists (cache_delete records_update k c) = lists c
      \<and> records (cache_delete records_update k c) = records c"
  by (auto simp: cache_delete_def client_call_def dest!: failing_cases)

lemma cache_deletePattern_failing:
  "failing c \<Longrightarrow> lists (cache_deletePattern c) = lists c
      \<and> records (cache_deletePattern c) = records c"
  by (auto simp: cache_deletePattern_def client_call_def dest!: failing_cases)

lemma cache_deletePattern_del_throws:
  "isConnected c \<Longrightarrow> faults c = False # True # fs \<Longrightarrow>
     lists (cache_deletePattern c) = lists c \<and> records (cache_deletePattern c) = records c"
  by (auto simp: cache_deletePattern_def client_call_def)

lemma getEmployees_failing:
  assumes "failing (redis st)"
  shows "fst (getEmployees M flt paging sorting st)
           = (case list_request flt paging sorting of
                (q, srt, pg, lmt, skip) \<Rightarrow> fetch_page M q srt pg lmt skip (db st))"
proof -
  obtain q srt pg lmt skip where r: "list_request flt paging sorting = (q, srt, pg, lmt, skip)"
    by (cases "list_request flt paging sorting") auto
  from getEmployees_miss(1)[OF r cache_get_failing[OF assms]] r show ?thesis by simp
qed

lemma getEmployeeById_failing:
  assumes "failing (redis st)"
  shows "fst (getEmployeeById rid st) = findById rid (db st)"
    and "db (snd (getEmployeeById rid st)) = db st"
  using cache_get_failing[OF assms, of records rid]
  by (auto simp: getEmployeeById_def split: prod.splits option.splits)

lemma getEmployees_set_throws:
  assumes "isConnected (redis st)" and "faults (redis st) = False # True # fs"
    and "list_request flt paging sorting = (q, srt, pg, lmt, skip)"
    and "map_of (lists (redis st)) \<lparr> k_query = q, k_skip = skip, k_limit = lmt, k_sort = srt \<rparr> = None"
  shows "fst (getEmployees M flt paging sorting st) = fetch_page M q srt pg lmt skip (db st)"
    and "lists (redis (snd (getEmployees M flt paging sorting st))) = lists (redis st)"
  using assms
  by (auto simp: getEmployees_def cache_get_def cache_set_def client_call_def Let_def
      split: sum.splits)

lemma getEmployeeById_set_throws:
  assumes "isConnected (redis st)" and "faults (redis st) = False # True # fs"
    and "map_of (records (redis st)) rid = None"
  shows "fst (getEmployeeById rid st) = findById rid (db st)"
    and "records (redis (snd (getEmployeeById rid st))) = records (redis st)"
  using assms
  by (auto simp: getEmployeeById_def cache_get_def cache_set_def client_call_def
      split: option.splits)






lemma find_distinct:
  "distinct (map oid docs) \<Longrightarrow> d \<in> set docs \<Longrightarrow> find (\<lambda>x. oid x = oid d) docs = Some d"
  by (induction docs) (auto simp: image_iff)

lemma find_update_first:
  "find p docs = Some d \<Longrightarrow> p (f d) \<Longrightarrow> find p (update_first p f docs) = Some (f d)"
  by (induction docs) (auto split: if_splits)

lemma email_unique:
  "distinct (map email docs) \<Longrightarrow> d \<in> set docs \<Longrightarrow> x \<in> set docs \<Longrightarrow> email x = email d
     \<Longrightarrow> x = d"
  by (meson distinct_map inj_on_eq_iff)

lemma deleteEmployee_only:
  assumes "db st = [d]" and "oid d = rid" and "isConnected (redis st) \<longrightarrow> faults (redis st) = []"
  shows "fst (deleteEmployee rid st) = True"
    and "db (snd (deleteEmployee rid st)) = [d\<lparr>isActive := False\<rparr>]"
    and "isConnected (redis (snd (deleteEmployee rid st))) \<longrightarrow>
           faults (redis (snd (deleteEmployee rid st))) = []
           \<and> lists (redis (snd (deleteEmployee rid st))) = []"
  using assms
  by (auto simp: deleteEmployee_def findByIdAndUpdate_def findById_def cache_delete_def
      cache_deletePattern_def client_call_def)

lemma default_request:
  "list_request empty_filter None sorting
     = (build_query empty_filter,
        (case sorting of None \<Rightarrow> \<lparr> s_field = Some ''createdAt'', s_order = Some DESC \<rparr> | Some s \<Rightarrow> s),
        1, 10, 0)"
  "list_request (empty_filter\<lparr>f_isActive := Some False\<rparr>) None sorting
     = (build_query (empty_filter\<lparr>f_isActive := Some False\<rparr>),
        (case sorting of None \<Rightarrow> \<lparr> s_field = Some ''createdAt'', s_order = Some DESC \<rparr> | Some s \<Rightarrow> s),
        1, 10, 0)"
  by (simp_all add: list_request_def)

lemma fetch_only_inactive:
  "\<not> isActive d \<Longrightarrow>
   fetch_page M (build_query empty_filter) srt 1 10 0 [d] = Inr (page_envelope [] 0 1 10)"
  "\<not> isActive d \<Longrightarrow>
   fetch_page M (build_query (empty_filter\<lparr>f_isActive := Some False\<rparr>)) srt 1 10 0 [d]
     = Inr (page_envelope [d] 1 1 10)"
  by (simp_all add: fetch_page_def find_employees_def skip_limit_def sort_by_def matches_def
      build_query_def empty_filter_def truthy_str_def truthy_num_def countDocuments_def)

lemma scenario_lists:
  assumes c: "isConnected (redis st) \<longrightarrow> faults (redis st) = [] \<and> lists (redis st) = []"
    and d: "db st = [d]" and i: "\<not> isActive d"
  shows "fst (getEmployees M empty_filter None sorting st) = Inr (page_envelope [] 0 1 10)"
    and "fst (getEmployees M (empty_filter\<lparr>f_isActive := Some False\<rparr>) None sorting'
               (snd (getEmployees M empty_filter None sorting st)))
           = Inr (page_envelope [d] 1 1 10)"
proof -
  let ?srt = "case sorting of None \<Rightarrow> \<lparr> s_field = Some ''createdAt'', s_order = Some DESC \<rparr> | Some s \<Rightarrow> s"
  let ?srt' = "case sorting' of None \<Rightarrow> \<lparr> s_field = Some ''createdAt'', s_order = Some DESC \<rparr> | Some s \<Rightarrow> s"
  let ?k = "\<lparr> k_query = build_query empty_filter, k_skip = 0, k_limit = 10, k_sort = ?srt \<rparr>"
  let ?k' = "\<lparr> k_query = build_query (empty_filter\<lparr>f_isActive := Some False\<rparr>), k_skip = 0,
               k_limit = 10, k_sort = ?srt' \<rparr>"
  have miss: "fst (cache_get lists ?k (redis st)) = None"
    using c by (auto simp: cache_get_def client_call_def)
  from getEmployees_miss(1)[OF default_request(1) miss, of M] fetch_only_inactive(1)[OF i] d
  show first: "fst (getEmployees M empty_filter None sorting st) = Inr (page_envelope [] 0 1 10)"
    by simp
  let ?st1 = "snd (getEmployees M empty_filter None sorting st)"
  have kk: "?k \<noteq> ?k'"
    by (simp add: build_query_def empty_filter_def)
  have st1: "db ?st1 = [d]" using d by simp
  have miss': "fst (cache_get lists ?k' (redis ?st1)) = None"
  proof (cases "isConnected (redis st)")
    case True
    with c have "\<exists>v. lists (redis ?st1) = [(?k, v)]"
      using d fetch_only_inactive(1)[OF i, of M ?srt]
      by (auto simp: getEmployees_def default_request cache_get_def cache_set_def client_call_def
          Let_def)
    then show ?thesis
      using kk by (auto simp: cache_get_def client_call_def split: list.splits bool.splits)
  next
    case False
    then have "\<not> isConnected (redis ?st1)"
      using d fetch_only_inactive(1)[OF i, of M ?srt]
      by (auto simp: getEmployees_def default_request cache_get_def cache_set_def Let_def)
    then show ?thesis by (simp add: cache_get_def)
  qed
  from getEmployees_miss(1)[OF default_request(2) miss', of M] fetch_only_inactive(2)[OF i] st1
  show "fst (getEmployees M (empty_filter\<lparr>f_isActive := Some False\<rparr>) None sorting' ?st1)
           = Inr (page_envelope [d] 1 1 10)"
    by simp
qed


lemma member_record_operations_forbidden:
  assumes "role u = EMPLOYEE" and "employeeRef u \<noteq> Some rid"
  shows "employee_resolver rid (Some u) st
           = (Inl (GraphQLError ''Not authorized to view this employee'' ''FORBIDDEN''), st)"
    and "updateEmployee_resolver rid input (Some u) st
           = (Inl (GraphQLError ''Not authorized'' ''FORBIDDEN''), st)"
    and "markAttendance_resolver rid att (Some u) st
           = (Inl (GraphQLError ''Not authorized'' ''FORBIDDEN''), st)"
  using assms
  by (simp_all add: employee_resolver_def updateEmployee_resolver_def markAttendance_resolver_def)

lemma member_list_is_unfiltered:
  assumes "role u = EMPLOYEE" and "employeeRef u = Some r"
  shows "employees_resolver M flt paging sorting (Some u) st
           = getEmployees M empty_filter paging sorting st"
proof -
  have "list_request (empty_filter\<lparr>f_oid := Some r\<rparr>) paging sorting
          = list_request empty_filter paging sorting"
    by (simp add: list_request_def build_query_def empty_filter_def)
  then show ?thesis
    using assms by (simp add: employees_resolver_def getEmployees_def)
qed

lemma markAttendance_keeps_lists:
  "lists (redis (snd (markAttendance rid att st))) = lists (redis st)"
  by (auto simp: markAttendance_def cache_delete_def client_call_def
      split: prod.splits option.splits list.splits bool.splits)

lemma lists_records_ops [simp]:
  "lists (cache_set records_update k v ttl c) = lists c"
  "lists (cache_delete records_update k c) = lists c"
  by (auto simp: cache_set_def cache_delete_def client_call_def split: list.splits bool.splits)

lemma lists_deletePattern:
  "lists (cache_deletePattern c) = lists c \<or> lists (cache_deletePattern c) = []"
  by (auto simp: cache_deletePattern_def client_call_def split: list.splits bool.splits)

lemma lists_kept_or_cleared:
  "lists c' = lists c \<or> lists c' = [] \<Longrightarrow> lists_ok c \<Longrightarrow> lists_ok c'"
  by (auto simp: lists_ok_def)

lemma lists_cache_getD: "cache_get ns k c = (r, c') \<Longrightarrow> lists c' = lists c"
  using lists_cache_get[of ns k c] by simp

lemma lists_ok_reachable:
  "lists_ok healthy_cache"
  "lists_ok (redis st) \<Longrightarrow> lists_ok (redis (snd (getEmployees M flt paging sorting st)))"
  "lists_ok (redis st) \<Longrightarrow> lists_ok (redis (snd (getEmployeeById rid st)))"
  "lists_ok (redis st) \<Longrightarrow> lists_ok (redis (snd (createEmployee new_oid cinput creator st)))"
  "lists_ok (redis st) \<Longrightarrow> lists_ok (redis (snd (updateEmployee rid input st)))"
  "lists_ok (redis st) \<Longrightarrow> lists_ok (redis (snd (deleteEmployee rid st)))"
  "lists_ok (redis st) \<Longrightarrow> lists_ok (redis (snd (markAttendance rid att st)))"
proof -
  show "lists_ok healthy_cache" by (simp add: lists_ok_def healthy_cache_def)
  assume ok: "lists_ok (redis st)"
  show "lists_ok (redis (snd (getEmployees M flt paging sorting st)))"
  proof (cases "getEmployees M flt paging sorting st")
    case (Pair r st')
    obtain q srt pg lmt skip where q: "list_request flt paging sorting = (q, srt, pg, lmt, skip)"
      by (cases "list_request flt paging sorting") auto
    show ?thesis
    proof (cases r)
      case (Inl e)
      with Pair q have "lists (redis st') = lists (redis st)"
        by (auto simp: getEmployees_def Let_def dest: lists_cache_getD
            split: prod.splits option.splits sum.splits)
      with ok Pair show ?thesis by (simp add: lists_ok_def)
    next
      case (Inr env)
      with Pair getEmployees_ok[OF ok _ q, of M env st'] show ?thesis by simp
    qed
  qed
  have "lists (redis (snd (getEmployeeById rid st))) = lists (redis st)"
    by (auto simp: getEmployeeById_def dest: lists_cache_getD split: prod.splits option.splits)
  then show "lists_ok (redis (snd (getEmployeeById rid st)))"
    using ok by (simp add: lists_ok_def)
  have "lists (redis (snd (createEmployee new_oid cinput creator st))) = lists (redis st)
        \<or> lists (redis (snd (createEmployee new_oid cinput creator st))) = []"
    using lists_deletePattern[of "redis st"]
    by (auto simp: createEmployee_def split: sum.splits)
  then show "lists_ok (redis (snd (createEmployee new_oid cinput creator st)))"
    using ok by (rule lists_kept_or_cleared)
  have "lists (redis (snd (updateEmployee rid input st))) = lists (redis st)
        \<or> lists (redis (snd (updateEmployee rid input st))) = []"
    using lists_deletePattern[of "cache_delete records_update rid (redis st)"]
    by (auto simp: updateEmployee_def split: prod.splits option.splits)
  then show "lists_ok (redis (snd (updateEmployee rid input st)))"
    using ok by (rule lists_kept_or_cleared)
  have "lists (redis (snd (deleteEmployee rid st))) = lists (redis st)
        \<or> lists (redis (snd (deleteEmployee rid st))) = []"
    using lists_deletePattern[of "cache_delete records_update rid (redis st)"]
    by (auto simp: deleteEmployee_def split: prod.splits option.splits)
  then show "lists_ok (redis (snd (deleteEmployee rid st)))"
    using ok by (rule lists_kept_or_cleared)
  have "lists (redis (snd (markAttendance rid att st))) = lists (redis st)"
    by (auto simp: markAttendance_def split: prod.splits option.splits)
  then show "lists_ok (redis (snd (markAttendance rid att st)))"
    using ok by (simp add: lists_ok_def)
qed

section \<open>The page block\<close>

text \<open>
  Claim C4. Every list result \<^verbatim>\<open>getEmployees\<close> returns, from the store or from a cache that
  holds what \<^verbatim>\<open>getEmployees\<close> stored, and every result of \<^verbatim>\<open>searchEmployees\<close>, has
  \<open>pages = \<lceil>total / limit\<rceil>\<close>, \<open>hasNextPage = (page < pages)\<close> and
  \<open>hasPrevPage = (1 < page)\<close>, for every limit but zero (where the quotient is not defined);
  so on the last page there is no next page and on page one no previous page.
\<close>

theorem page_envelope_invariant:
  "(lists_ok (redis st) \<and> fst (getEmployees M flt paging sorting st) = Inr env
      \<and> limit (pagination env) \<noteq> 0
    \<longrightarrow> page_spec_invariant (pagination env)
        \<and> (pages (pagination env) = Num (page (pagination env))
             \<longrightarrow> \<not> hasNextPage (pagination env))
        \<and> (page (pagination env) = 1 \<longrightarrow> \<not> hasPrevPage (pagination env)))
   \<and> (searchEmployees M searchQuery paging docs = Inr found
         \<and> limit (pagination found) \<noteq> 0
       \<longrightarrow> page_spec_invariant (pagination found)
           \<and> (pages (pagination found) = Num (page (pagination found))
                \<longrightarrow> \<not> hasNextPage (pagination found))
           \<and> (page (pagination found) = 1 \<longrightarrow> \<not> hasPrevPage (pagination found)))"
proof -
  have law: "page_spec_invariant p
        \<and> (pages p = Num (page p) \<longrightarrow> \<not> hasNextPage p)
        \<and> (page p = 1 \<longrightarrow> \<not> hasPrevPage p)"
    if "pagination_ok p" and "limit p \<noteq> 0" for p
    using pagination_ok_spec[OF that] that(1)
    by (auto simp: pagination_ok_def)
  have list_part: "pagination_ok (pagination env)"
    if ok: "lists_ok (redis st)" and res: "fst (getEmployees M flt paging sorting st) = Inr env"
  proof -
    obtain st' where r: "getEmployees M flt paging sorting st = (Inr env, st')"
      using res by (cases "getEmployees M flt paging sorting st") auto
    obtain q srt pg lmt skip where "list_request flt paging sorting = (q, srt, pg, lmt, skip)"
      by (cases "list_request flt paging sorting") auto
    from getEmployees_ok[OF ok r this] show ?thesis by simp
  qed
  show ?thesis
    using law list_part searchEmployees_ok by blast
qed

theorem page_envelope_invariant_witness:
  "lists_ok (redis \<lparr> db = [jane], redis = healthy_cache \<rparr>)
   \<and> fst (getEmployees plain_mongo empty_filter None None \<lparr> db = [jane], redis = healthy_cache \<rparr>)
       = Inr jane_page
   \<and> limit (pagination jane_page) \<noteq> 0
   \<and> page_spec_invariant (pagination jane_page)
   \<and> pages (pagination jane_page) = Num (page (pagination jane_page))
   \<and> \<not> hasNextPage (pagination jane_page)
   \<and> page (pagination jane_page) = 1
   \<and> \<not> hasPrevPage (pagination jane_page)
   \<and> searchEmployees plain_mongo ''jane'' None [jane] = Inr jane_page"
proof -
  have h: "lists_ok (redis \<lparr> db = [jane], redis = healthy_cache \<rparr>)
     \<and> fst (getEmployees plain_mongo empty_filter None None \<lparr> db = [jane], redis = healthy_cache \<rparr>)
         = Inr jane_page
     \<and> limit (pagination jane_page) \<noteq> 0"
    by (simp add: read_defs sample_defs lists_ok_def)
  have s: "searchEmployees plain_mongo ''jane'' None [jane] = Inr jane_page"
    by (simp add: searchEmployees_def read_defs sample_defs)
  show ?thesis
    using h s page_envelope_invariant[of "\<lparr> db = [jane], redis = healthy_cache \<rparr>" plain_mongo
        empty_filter None None jane_page "''jane''" "[jane]" jane_page]
    by (simp add: jane_page_def)
qed

section \<open>Creating a record\<close>

text \<open>
  Claim C6. When the e-mail of the input is the e-mail of a record of the collection, active
  or not, \<^verbatim>\<open>createEmployee\<close> raises \<^verbatim>\<open>DUPLICATE_EMAIL\<close> and leaves the collection and
  the cache as they were: nothing is inserted, the number of records is the same, and no
  cache entry is removed or written.
\<close>

theorem createEmployee_duplicate_email:
  assumes "r \<in> set (db st)" and "email r = c_email input"
  shows "fst (createEmployee new_oid input creator st)
           = Inl (GraphQLError ''Employee with this email already exists'' ''DUPLICATE_EMAIL'')
         \<and> snd (createEmployee new_oid input creator st) = st
         \<and> length (db (snd (createEmployee new_oid input creator st))) = length (db st)"
  using assms by (auto simp: createEmployee_def list_ex_iff)

theorem createEmployee_duplicate_email_witness:
  "jane\<lparr>isActive := False\<rparr> \<in> set (db \<lparr> db = [jane\<lparr>isActive := False\<rparr>], redis = healthy_cache \<rparr>)
   \<and> email (jane\<lparr>isActive := False\<rparr>) = c_email jane_again
   \<and> fst (createEmployee ''e9'' jane_again ''u1''
            \<lparr> db = [jane\<lparr>isActive := False\<rparr>], redis = healthy_cache \<rparr>)
       = Inl (GraphQLError ''Employee with this email already exists'' ''DUPLICATE_EMAIL'')
   \<and> snd (createEmployee ''e9'' jane_again ''u1''
            \<lparr> db = [jane\<lparr>isActive := False\<rparr>], redis = healthy_cache \<rparr>)
       = \<lparr> db = [jane\<lparr>isActive := False\<rparr>], redis = healthy_cache \<rparr>"
proof -
  have h1: "jane\<lparr>isActive := False\<rparr>
              \<in> set (db \<lparr> db = [jane\<lparr>isActive := False\<rparr>], redis = healthy_cache \<rparr>)"
    by simp
  have h2: "email (jane\<lparr>isActive := False\<rparr>) = c_email jane_again"
    by (simp add: jane_def jane_again_def)
  show ?thesis
    using h1 h2 createEmployee_duplicate_email [OF h1 h2, of "''e9''" "''u1''"] by simp
qed

section \<open>Updating as a member\<close>

text \<open>
  Claim C5, as stated, at an input where it fails: a member asks to set the name of a record
  that is not the member's own. The ownership check comes first, and its message is
  \<^verbatim>\<open>Not authorized\<close>, which names no field.
\<close>

theorem member_update_other_record_message:
  "role (member_of (Some ''e1'')) = EMPLOYEE
   \<and> ''name'' \<in> set (input_keys (no_update\<lparr>u_name := Some ''Eve''\<rparr>))
   \<and> ''name'' \<notin> set allowedFields
   \<and> updateEmployee_resolver ''e2'' (no_update\<lparr>u_name := Some ''Eve''\<rparr>)
        (Some (member_of (Some ''e1''))) \<lparr> db = [jane, john], redis = healthy_cache \<rparr>
       = (Inl (GraphQLError ''Not authorized'' ''FORBIDDEN''),
          \<lparr> db = [jane, john], redis = healthy_cache \<rparr>)
   \<and> \<not> names_allowed_fields ''Not authorized''"
  by (simp add: resolver_defs sample_defs names_allowed_fields_def)

text \<open>
  Claim C5, amended. A member's update that gives a field outside \<open>subjects\<close> and
  \<open>class\<close> is rejected as \<^verbatim>\<open>FORBIDDEN\<close> and leaves the collection and the cache as they
  were; when the record is the member's own the message names the allowed fields, and
  otherwise it is the ownership check's \<^verbatim>\<open>Not authorized\<close>. For an administrator the
  resolver passes every input to \<^verbatim>\<open>EmployeeService.updateEmployee\<close>, whatever fields it gives.
\<close>

theorem member_update_outside_allow_list:
  "(role u = EMPLOYEE \<and> k \<in> set (input_keys input) \<and> k \<notin> set allowedFields
    \<longrightarrow> updateEmployee_resolver rid input (Some u) st
          = (Inl (GraphQLError (if employeeRef u = Some rid
                                then ''Employees can only update: subjects, class''
                                else ''Not authorized'') ''FORBIDDEN''), st)
        \<and> names_allowed_fields ''Employees can only update: subjects, class'')
   \<and> (role u = ADMIN
       \<longrightarrow> updateEmployee_resolver rid input (Some u) st
             = (case updateEmployee rid input st of
                  (Inl e, st') \<Rightarrow> (Inl e, st')
                | (Inr None, st') \<Rightarrow> (Inl not_found, st')
                | (Inr (Some employee), st') \<Rightarrow> (Inr employee, st')))"
proof -
  have n: "names_allowed_fields ''Employees can only update: subjects, class''"
    by (simp add: names_allowed_fields_def allowedFields_def)
  have m: "join '', '' allowedFields = ''subjects, class''"
    by (simp add: allowedFields_def)
  show ?thesis
    using n restricted_nonempty[of k input]
    by (auto simp: updateEmployee_resolver_def m)
qed


theorem member_update_outside_allow_list_witness:
  "role (member_of (Some ''e1'')) = EMPLOYEE
   \<and> ''salary'' \<in> set (input_keys (no_update\<lparr>u_salary := Some 10\<rparr>))
   \<and> ''salary'' \<notin> set allowedFields
   \<and> updateEmployee_resolver ''e1'' (no_update\<lparr>u_salary := Some 10\<rparr>)
        (Some (member_of (Some ''e1''))) \<lparr> db = [jane, john], redis = healthy_cache \<rparr>
       = (Inl (GraphQLError ''Employees can only update: subjects, class'' ''FORBIDDEN''),
          \<lparr> db = [jane, john], redis = healthy_cache \<rparr>)
   \<and> role admin = ADMIN
   \<and> fst (updateEmployee_resolver ''e1'' (no_update\<lparr>u_salary := Some 10\<rparr>) (Some admin)
            \<lparr> db = [jane, john], redis = healthy_cache \<rparr>)
       = Inr (jane\<lparr>salary := Some 10\<rparr>)"
proof -
  have h: "role (member_of (Some ''e1'')) = EMPLOYEE
     \<and> ''salary'' \<in> set (input_keys (no_update\<lparr>u_salary := Some 10\<rparr>))
     \<and> ''salary'' \<notin> set allowedFields \<and> role admin = ADMIN"
    by (simp add: sample_defs input_keys_def allowedFields_def)
  have a: "updateEmployee ''e1'' (no_update\<lparr>u_salary := Some 10\<rparr>)
             \<lparr> db = [jane, john], redis = healthy_cache \<rparr>
           = (Inr (Some (jane\<lparr>salary := Some 10\<rparr>)),
              \<lparr> db = [jane\<lparr>salary := Some 10\<rparr>, john], redis = healthy_cache \<rparr>)"
    by (simp add: write_defs sample_defs truthy_str_def client_call_def)
  show ?thesis
    using h a
      member_update_outside_allow_list [of "member_of (Some ''e1'')" "''salary''"
        "no_update\<lparr>u_salary := Some 10\<rparr>" "''e1''" "\<lparr> db = [jane, john], redis = healthy_cache \<rparr>"]
      member_update_outside_allow_list [of admin "''salary''"
        "no_update\<lparr>u_salary := Some 10\<rparr>" "''e1''" "\<lparr> db = [jane, john], redis = healthy_cache \<rparr>"]
    by (simp add: member_of_def)
qed

section \<open>The page and the limit\<close>

text \<open>
  Claim C3, at an input where the code departs from it. The configuration declares a maximum
  page size of 100, and \<^verbatim>\<open>getEmployees\<close> never reads it, nor checks the page or the limit
  in any other way: a request for page 1 with a limit of 1000 raises no error, reads the cache,
  queries the store and writes the result to the cache.
\<close>

theorem getEmployees_accepts_large_limit:
  "maxPageSize < 1000
   \<and> fst (getEmployees plain_mongo empty_filter (Some \<lparr> p_page = Some 1, p_limit = Some 1000 \<rparr>) None
            \<lparr> db = [jane], redis = healthy_cache \<rparr>)
       = Inr \<lparr> data = [jane],
               pagination = \<lparr> total = 1, page = 1, limit = 1000, pages = Num 1,
                              hasNextPage = False, hasPrevPage = False \<rparr> \<rparr>
   \<and> lists (redis (snd (getEmployees plain_mongo empty_filter
                          (Some \<lparr> p_page = Some 1, p_limit = Some 1000 \<rparr>) None
                          \<lparr> db = [jane], redis = healthy_cache \<rparr>))) \<noteq> []"
  by (simp add: read_defs sample_defs maxPageSize_def)

section \<open>A failing cache\<close>

text \<open>
  Claim C8. When the cache service is not connected, or the command it sends to the Redis client
  throws, every cache operation gives its default and leaves the entries as they are: a read is
  a miss, and a write, a delete and a delete by pattern do nothing (also when it is the
  pattern's second command, the \<^verbatim>\<open>DEL\<close>, that throws). \<^verbatim>\<open>getEmployees\<close> and
  \<^verbatim>\<open>getEmployeeById\<close> then return what the store gives, and so they do when the read is a
  miss and the write that follows throws; no error comes from the cache.
\<close>

theorem cache_failure_is_benign:
  "(failing c \<longrightarrow>
      fst (cache_get lists lkey c) = None \<and> fst (cache_get records rkey c) = None
      \<and> lists (cache_set lists_update lkey lval ttl c) = lists c
      \<and> records (cache_set lists_update lkey lval ttl c) = records c
      \<and> lists (cache_set records_update rkey rval ttl c) = lists c
      \<and> records (cache_set records_update rkey rval ttl c) = records c
      \<and> lists (cache_delete records_update rkey c) = lists c
      \<and> records (cache_delete records_update rkey c) = records c
      \<and> lists (cache_deletePattern c) = lists c
      \<and> records (cache_deletePattern c) = records c)
   \<and> (isConnected c \<and> faults c = False # True # fs \<longrightarrow>
        lists (cache_deletePattern c) = lists c \<and> records (cache_deletePattern c) = records c)
   \<and> (failing (redis st) \<longrightarrow>
        fst (getEmployees M flt paging sorting st)
          = (case list_request flt paging sorting of
               (q, srt, pg, lmt, skip) \<Rightarrow> fetch_page M q srt pg lmt skip (db st))
        \<and> db (snd (getEmployees M flt paging sorting st)) = db st
        \<and> fst (getEmployeeById rid st) = findById rid (db st)
        \<and> db (snd (getEmployeeById rid st)) = db st)
   \<and> (isConnected (redis st) \<and> faults (redis st) = False # True # fs
       \<and> map_of (lists (redis st)) (case list_request flt paging sorting of
              (q, srt, pg, lmt, skip) \<Rightarrow>
                \<lparr> k_query = q, k_skip = skip, k_limit = lmt, k_sort = srt \<rparr>) = None
       \<and> map_of (records (redis st)) rid = None \<longrightarrow>
        fst (getEmployees M flt paging sorting st)
          = (case list_request flt paging sorting of
               (q, srt, pg, lmt, skip) \<Rightarrow> fetch_page M q srt pg lmt skip (db st))
        \<and> lists (redis (snd (getEmployees M flt paging sorting st))) = lists (redis st)
        \<and> fst (getEmployeeById rid st) = findById rid (db st)
        \<and> records (redis (snd (getEmployeeById rid st))) = records (redis st))"
proof -
  have ops: "fst (cache_get lists lkey c) = None \<and> fst (cache_get records rkey c) = None
      \<and> lists (cache_set lists_update lkey lval ttl c) = lists c
      \<and> records (cache_set lists_update lkey lval ttl c) = records c
      \<and> lists (cache_set records_update rkey rval ttl c) = lists c
      \<and> records (cache_set records_update rkey rval ttl c) = records c
      \<and> lists (cache_delete records_update rkey c) = lists c
      \<and> records (cache_delete records_update rkey c) = records c
      \<and> lists (cache_deletePattern c) = lists c
      \<and> records (cache_deletePattern c) = records c" if f: "failing c"
    using cache_get_failing[OF f, of lists lkey] cache_get_failing[OF f, of records rkey]
      cache_set_failing[OF f, of lkey lval ttl rkey rval] cache_delete_failing[OF f, of rkey]
      cache_deletePattern_failing[OF f]
    by simp
  have reads: "fst (getEmployees M flt paging sorting st)
          = (case list_request flt paging sorting of
               (q, srt, pg, lmt, skip) \<Rightarrow> fetch_page M q srt pg lmt skip (db st))
        \<and> db (snd (getEmployees M flt paging sorting st)) = db st
        \<and> fst (getEmployeeById rid st) = findById rid (db st)
        \<and> db (snd (getEmployeeById rid st)) = db st" if f: "failing (redis st)"
    using getEmployees_failing[OF f, of M flt paging sorting] getEmployeeById_failing[OF f, of rid]
    by simp
  have sets: "fst (getEmployees M flt paging sorting st)
          = (case list_request flt paging sorting of
               (q, srt, pg, lmt, skip) \<Rightarrow> fetch_page M q srt pg lmt skip (db st))
        \<and> lists (redis (snd (getEmployees M flt paging sorting st))) = lists (redis st)
        \<and> fst (getEmployeeById rid st) = findById rid (db st)
        \<and> records (redis (snd (getEmployeeById rid st))) = records (redis st)"
    if c: "isConnected (redis st)" and f: "faults (redis st) = False # True # fs"
      and l: "map_of (lists (redis st)) (case list_request flt paging sorting of
              (q, srt, pg, lmt, skip) \<Rightarrow>
                \<lparr> k_query = q, k_skip = skip, k_limit = lmt, k_sort = srt \<rparr>) = None"
      and r: "map_of (records (redis st)) rid = None"
  proof -
    obtain q srt pg lmt skip where q: "list_request flt paging sorting = (q, srt, pg, lmt, skip)"
      by (cases "list_request flt paging sorting") auto
    from l q have "map_of (lists (redis st))
        \<lparr> k_query = q, k_skip = skip, k_limit = lmt, k_sort = srt \<rparr> = None" by simp
    from getEmployees_set_throws[OF c f q this, of M] getEmployeeById_set_throws[OF c f r] q
    show ?thesis by simp
  qed
  show ?thesis
    using ops reads sets cache_deletePattern_del_throws[of c fs] by simp
qed


theorem cache_failure_is_benign_witness:
  "failing (warm_cache\<lparr>faults := [True]\<rparr>)
   \<and> failing (warm_cache\<lparr>isConnected := False\<rparr>)
   \<and> fst (cache_get lists default_key (warm_cache\<lparr>faults := [True]\<rparr>)) = None
   \<and> fst (cache_get records ''e1'' (warm_cache\<lparr>isConnected := False\<rparr>)) = None
   \<and> lists (cache_deletePattern (warm_cache\<lparr>faults := [True]\<rparr>)) = lists warm_cache
   \<and> isConnected (warm_cache\<lparr>faults := [False, True]\<rparr>)
   \<and> faults (warm_cache\<lparr>faults := [False, True]\<rparr>) = False # True # []
   \<and> lists (cache_deletePattern (warm_cache\<lparr>faults := [False, True]\<rparr>)) = lists warm_cache
   \<and> failing (redis \<lparr> db = [jane_attended], redis = warm_cache\<lparr>faults := [True]\<rparr> \<rparr>)
   \<and> fst (getEmployees plain_mongo empty_filter None None
            \<lparr> db = [jane_attended], redis = warm_cache\<lparr>faults := [True]\<rparr> \<rparr>)
       = Inr (jane_page\<lparr>data := [jane_attended]\<rparr>)
   \<and> fst (getEmployeeById ''e1'' \<lparr> db = [jane_attended], redis = warm_cache\<lparr>faults := [True]\<rparr> \<rparr>)
       = Some jane_attended
   \<and> isConnected (redis \<lparr> db = [jane_attended], redis = healthy_cache\<lparr>faults := [False, True]\<rparr> \<rparr>)
   \<and> fst (getEmployees plain_mongo empty_filter None None
            \<lparr> db = [jane_attended], redis = healthy_cache\<lparr>faults := [False, True]\<rparr> \<rparr>)
       = Inr (jane_page\<lparr>data := [jane_attended]\<rparr>)
   \<and> lists (redis (snd (getEmployees plain_mongo empty_filter None None
            \<lparr> db = [jane_attended], redis = healthy_cache\<lparr>faults := [False, True]\<rparr> \<rparr>))) = []"
proof -
  have h2: "isConnected (redis \<lparr> db = [jane_attended], redis = healthy_cache\<lparr>faults := [False, True]\<rparr> \<rparr>)
     \<and> faults (redis \<lparr> db = [jane_attended], redis = healthy_cache\<lparr>faults := [False, True]\<rparr> \<rparr>)
         = False # True # []
     \<and> lists (redis \<lparr> db = [jane_attended], redis = healthy_cache\<lparr>faults := [False, True]\<rparr> \<rparr>) = []
     \<and> records (redis \<lparr> db = [jane_attended], redis = healthy_cache\<lparr>faults := [False, True]\<rparr> \<rparr>) = []"
    by (simp add: healthy_cache_def)
  have h: "failing (warm_cache\<lparr>faults := [True]\<rparr>) \<and> failing (warm_cache\<lparr>isConnected := False\<rparr>)
     \<and> isConnected (warm_cache\<lparr>faults := [False, True]\<rparr>)
     \<and> faults (warm_cache\<lparr>faults := [False, True]\<rparr>) = False # True # []
     \<and> failing (redis \<lparr> db = [jane_attended], redis = warm_cache\<lparr>faults := [True]\<rparr> \<rparr>)"
    by (simp add: failing_def warm_cache_def)
  have r: "list_request empty_filter None None
             = (build_query empty_filter, \<lparr> s_field = Some ''createdAt'', s_order = Some DESC \<rparr>, 1, 10, 0)"
    by (simp add: list_request_def)
  have f: "fetch_page plain_mongo (build_query empty_filter)
             \<lparr> s_field = Some ''createdAt'', s_order = Some DESC \<rparr> 1 10 0 [jane_attended]
           = Inr (jane_page\<lparr>data := [jane_attended]\<rparr>)"
    by (simp add: read_defs sample_defs sample_defs2)
  have g: "findById ''e1'' [jane_attended] = Some jane_attended"
    by (simp add: findById_def sample_defs sample_defs2)
  show ?thesis
    using h h2 r f g
      cache_failure_is_benign [of "warm_cache\<lparr>faults := [True]\<rparr>" default_key "''e1''" jane_page
        None jane "[]" "\<lparr> db = [jane_attended], redis = healthy_cache\<lparr>faults := [False, True]\<rparr> \<rparr>"
        plain_mongo empty_filter None None "''e1''"]
      cache_failure_is_benign [of "warm_cache\<lparr>faults := [True]\<rparr>" default_key "''e1''" jane_page
        None jane "[]" "\<lparr> db = [jane_attended], redis = warm_cache\<lparr>faults := [True]\<rparr> \<rparr>"
        plain_mongo empty_filter None None "''e1''"]
      cache_failure_is_benign [of "warm_cache\<lparr>isConnected := False\<rparr>" default_key "''e1''" jane_page
        None jane "[]" "\<lparr> db = [jane_attended], redis = warm_cache\<lparr>faults := [True]\<rparr> \<rparr>"
        plain_mongo empty_filter None None "''e1''"]
      cache_failure_is_benign [of "warm_cache\<lparr>faults := [False, True]\<rparr>" default_key "''e1''" jane_page
        None jane "[]" "\<lparr> db = [jane_attended], redis = warm_cache\<lparr>faults := [True]\<rparr> \<rparr>"
        plain_mongo empty_filter None None "''e1''"]
    by (simp add: warm_cache_def healthy_cache_def)
qed

section \<open>Statistics\<close>




section \<open>Updating the e-mail\<close>

text \<open>
  Claim C10. On a collection as the schema keeps it (unique ids, unique and non-empty e-mails),
  \<^verbatim>\<open>updateEmployee\<close> raises \<^verbatim>\<open>DUPLICATE_EMAIL\<close> exactly when the e-mail of the input is the
  e-mail of a record other than the one being updated; an update that gives the record its own
  current e-mail again, with an input the validators accept, passes the check and succeeds: it
  returns the updated record, with the same e-mail, and the store holds it.
\<close>

theorem updateEmployee_duplicate_iff:
  assumes "store_ok (db st)"
  shows "(fst (updateEmployee rid input st)
            = Inl (GraphQLError ''Email already in use'' ''DUPLICATE_EMAIL'')
          \<longleftrightarrow> (\<exists>d\<in>set (db st). oid d \<noteq> rid \<and> u_email input = Some (email d)))
         \<and> (\<forall>d. d \<in> set (db st) \<and> oid d = rid \<and> u_email input = Some (email d)
                  \<and> validate_update input
              \<longrightarrow> fst (updateEmployee rid input st) = Inr (Some (apply_set input d))
                  \<and> email (apply_set input d) = email d
                  \<and> findById rid (db (snd (updateEmployee rid input st)))
                      = Some (apply_set input d))"
proof -
  from assms have ids: "distinct (map oid (db st))" and ems: "distinct (map email (db st))"
    and ne: "\<And>d. d \<in> set (db st) \<Longrightarrow> email d \<noteq> []"
    by (auto simp: store_ok_def list_all_iff)
  let ?other = "list_ex (\<lambda>d. Some (email d) = u_email input \<and> oid d \<noteq> rid) (db st)"
  have dup: "fst (updateEmployee rid input st)
               = Inl (GraphQLError ''Email already in use'' ''DUPLICATE_EMAIL'')
             \<longleftrightarrow> truthy_str (u_email input) \<and> ?other"
    by (auto simp: updateEmployee_def split: prod.splits option.splits)
  have tr: "truthy_str (u_email input)" if "?other"
  proof -
    from that obtain d where "d \<in> set (db st)" and "Some (email d) = u_email input"
      by (auto simp: list_ex_iff)
    with ne[of d] show ?thesis
      by (cases "u_email input") (auto simp: truthy_str_def)
  qed
  have ex: "?other \<longleftrightarrow> (\<exists>d\<in>set (db st). oid d \<noteq> rid \<and> u_email input = Some (email d))"
    by (auto simp: list_ex_iff)
  have own: "fst (updateEmployee rid input st) = Inr (Some (apply_set input d))
       \<and> email (apply_set input d) = email d
       \<and> findById rid (db (snd (updateEmployee rid input st))) = Some (apply_set input d)"
    if d: "d \<in> set (db st)" and o: "oid d = rid" and e: "u_email input = Some (email d)"
      and v: "validate_update input" for d
  proof -
    have no: "\<not> ?other"
      using email_unique[OF ems d] o e by (auto simp: list_ex_iff)
    have f: "findById rid (db st) = Some d"
      using find_distinct[OF ids d] o by (simp add: findById_def)
    have oid_keep: "oid (apply_set input d) = rid"
      using o by (simp add: apply_set_def)
    have g: "find (\<lambda>x. oid x = rid) (update_first (\<lambda>x. oid x = rid) (apply_set input) (db st))
               = Some (apply_set input d)"
      using f oid_keep unfolding findById_def
      by (intro find_update_first) simp_all
    show ?thesis
      using no f v e g
      by (simp add: updateEmployee_def findByIdAndUpdate_def findById_def apply_set_def)
  qed
  show ?thesis
    using dup tr ex own by blast
qed

theorem updateEmployee_duplicate_iff_witness:
  "store_ok (db \<lparr> db = [jane, john], redis = healthy_cache \<rparr>)
   \<and> john \<in> set (db \<lparr> db = [jane, john], redis = healthy_cache \<rparr>)
   \<and> oid john \<noteq> ''e1''
   \<and> u_email (no_update\<lparr>u_email := Some ''john@example.com''\<rparr>) = Some (email john)
   \<and> fst (updateEmployee ''e1'' (no_update\<lparr>u_email := Some ''john@example.com''\<rparr>)
            \<lparr> db = [jane, john], redis = healthy_cache \<rparr>)
       = Inl (GraphQLError ''Email already in use'' ''DUPLICATE_EMAIL'')
   \<and> jane \<in> set (db \<lparr> db = [jane, john], redis = healthy_cache \<rparr>)
   \<and> oid jane = ''e1''
   \<and> u_email (no_update\<lparr>u_email := Some ''jane@x.com'', u_age := Some 29\<rparr>) = Some (email jane)
   \<and> validate_update (no_update\<lparr>u_email := Some ''jane@x.com'', u_age := Some 29\<rparr>)
   \<and> fst (updateEmployee ''e1'' (no_update\<lparr>u_email := Some ''jane@x.com'', u_age := Some 29\<rparr>)
            \<lparr> db = [jane, john], redis = healthy_cache \<rparr>)
       = Inr (Some (jane\<lparr>age := 29\<rparr>))"
proof -
  have h: "store_ok (db \<lparr> db = [jane, john], redis = healthy_cache \<rparr>)"
    by (simp add: store_ok_def sample_defs)
  have j: "john \<in> set (db \<lparr> db = [jane, john], redis = healthy_cache \<rparr>)
     \<and> oid john \<noteq> ''e1''
     \<and> u_email (no_update\<lparr>u_email := Some ''john@example.com''\<rparr>) = Some (email john)
     \<and> jane \<in> set (db \<lparr> db = [jane, john], redis = healthy_cache \<rparr>)
     \<and> oid jane = ''e1''
     \<and> u_email (no_update\<lparr>u_email := Some ''jane@x.com'', u_age := Some 29\<rparr>) = Some (email jane)"
    by (simp add: sample_defs)
  have v: "validate_update (no_update\<lparr>u_email := Some ''jane@x.com'', u_age := Some 29\<rparr>)"
    by (simp add: validate_update_def email_match_def is_space_def sample_defs)
  have a: "apply_set (no_update\<lparr>u_email := Some ''jane@x.com'', u_age := Some 29\<rparr>) jane
             = jane\<lparr>age := 29\<rparr>"
    by (simp add: apply_set_def sample_defs)
  show ?thesis
    using h j v a
      updateEmployee_duplicate_iff [OF h, of "''e1''" "no_update\<lparr>u_email := Some ''john@example.com''\<rparr>"]
      updateEmployee_duplicate_iff [OF h, of "''e1''"
        "no_update\<lparr>u_email := Some ''jane@x.com'', u_age := Some 29\<rparr>"]
    by auto
qed

section \<open>Active and inactive records in lists\<close>

text \<open>
  Claim C7. A list result of \<^verbatim>\<open>getEmployees\<close>, from the store or from a cache that holds what
  \<^verbatim>\<open>getEmployees\<close> stored, has only records whose active flag is \<open>True\<close> when the filter
  does not set the flag, and only records with the flag of the filter when it does. Soft delete
  flips this: when the only record of the collection is deleted and no command of the cache
  throws, the list with the default filter then has total 0 and no record, and the list with
  \<^verbatim>\<open>isActive: false\<close> has total 1 and the deleted record.
\<close>

theorem list_active_visibility:
  "(lists_ok (redis st) \<and> fst (getEmployees M flt paging sorting st) = Inr env
    \<longrightarrow> list_all (\<lambda>e. isActive e = (case f_isActive flt of None \<Rightarrow> True | Some b \<Rightarrow> b))
          (data env))
   \<and> (db st = [d] \<and> oid d = rid \<and> isActive d
       \<and> (isConnected (redis st) \<longrightarrow> faults (redis st) = [])
       \<longrightarrow> fst (deleteEmployee rid st) = True
           \<and> (\<exists>r. fst (getEmployees M empty_filter None sorting (snd (deleteEmployee rid st)))
                      = Inr r
                    \<and> total (pagination r) = 0 \<and> data r = [])
           \<and> (\<exists>r. fst (getEmployees M (empty_filter\<lparr>f_isActive := Some False\<rparr>) None sorting
                          (snd (getEmployees M empty_filter None sorting
                                  (snd (deleteEmployee rid st)))))
                      = Inr r
                    \<and> total (pagination r) = 1 \<and> data r = [d\<lparr>isActive := False\<rparr>]))"
proof -
  have a: "list_all (\<lambda>e. isActive e = (case f_isActive flt of None \<Rightarrow> True | Some b \<Rightarrow> b))
          (data env)"
    if ok: "lists_ok (redis st)" and res: "fst (getEmployees M flt paging sorting st) = Inr env"
  proof -
    obtain st' where r: "getEmployees M flt paging sorting st = (Inr env, st')"
      using res by (cases "getEmployees M flt paging sorting st") auto
    obtain q srt pg lmt skip where q: "list_request flt paging sorting = (q, srt, pg, lmt, skip)"
      by (cases "list_request flt paging sorting") auto
    then have "q = build_query flt" by (auto simp: list_request_def Let_def)
    then have "q_isActive q = (case f_isActive flt of None \<Rightarrow> True | Some b \<Rightarrow> b)"
      by (simp add: build_query_def)
    with getEmployees_ok[OF ok r q] show ?thesis by simp
  qed
  have b: "fst (deleteEmployee rid st) = True
           \<and> (\<exists>r. fst (getEmployees M empty_filter None sorting (snd (deleteEmployee rid st)))
                      = Inr r
                    \<and> total (pagination r) = 0 \<and> data r = [])
           \<and> (\<exists>r. fst (getEmployees M (empty_filter\<lparr>f_isActive := Some False\<rparr>) None sorting
                          (snd (getEmployees M empty_filter None sorting
                                  (snd (deleteEmployee rid st)))))
                      = Inr r
                    \<and> total (pagination r) = 1 \<and> data r = [d\<lparr>isActive := False\<rparr>])"
    if s: "db st = [d]" and o: "oid d = rid" and f: "isConnected (redis st) \<longrightarrow> faults (redis st) = []"
  proof -
    let ?st1 = "snd (deleteEmployee rid st)"
    have c1: "isConnected (redis ?st1) \<longrightarrow> faults (redis ?st1) = [] \<and> lists (redis ?st1) = []"
      by (rule deleteEmployee_only(3)[OF s o f])
    have d1: "db ?st1 = [d\<lparr>isActive := False\<rparr>]"
      by (rule deleteEmployee_only(2)[OF s o f])
    have i1: "\<not> isActive (d\<lparr>isActive := False\<rparr>)" by simp
    from scenario_lists(1)[OF c1 d1 i1, of M sorting]
      scenario_lists(2)[OF c1 d1 i1, of M sorting sorting] deleteEmployee_only(1)[OF s o f]
    show ?thesis by (simp add: page_envelope_fields)
  qed
  show ?thesis using a b by blast
qed

theorem list_active_visibility_witness:
  "lists_ok (redis \<lparr> db = [jane], redis = warm_cache \<rparr>)
   \<and> fst (getEmployees plain_mongo empty_filter None None \<lparr> db = [jane], redis = warm_cache \<rparr>)
       = Inr jane_page
   \<and> list_all (\<lambda>e. isActive e = True) (data jane_page)
   \<and> db \<lparr> db = [jane], redis = warm_cache \<rparr> = [jane]
   \<and> oid jane = ''e1'' \<and> isActive jane
   \<and> isConnected (redis \<lparr> db = [jane], redis = warm_cache \<rparr>)
   \<and> faults (redis \<lparr> db = [jane], redis = warm_cache \<rparr>) = []
   \<and> fst (deleteEmployee ''e1'' \<lparr> db = [jane], redis = warm_cache \<rparr>) = True
   \<and> (\<exists>r. fst (getEmployees plain_mongo empty_filter None None
                  (snd (deleteEmployee ''e1'' \<lparr> db = [jane], redis = warm_cache \<rparr>))) = Inr r
          \<and> total (pagination r) = 0 \<and> data r = [])
   \<and> (\<exists>r. fst (getEmployees plain_mongo (empty_filter\<lparr>f_isActive := Some False\<rparr>) None None
                  (snd (getEmployees plain_mongo empty_filter None None
                          (snd (deleteEmployee ''e1'' \<lparr> db = [jane], redis = warm_cache \<rparr>)))))
              = Inr r
          \<and> total (pagination r) = 1 \<and> data r = [jane\<lparr>isActive := False\<rparr>])"
proof -
  have h: "lists_ok (redis \<lparr> db = [jane], redis = warm_cache \<rparr>)
     \<and> fst (getEmployees plain_mongo empty_filter None None \<lparr> db = [jane], redis = warm_cache \<rparr>)
         = Inr jane_page"
    by (simp add: lists_ok_def pagination_ok_def read_defs sample_defs sample_defs2)
  have g: "db \<lparr> db = [jane], redis = warm_cache \<rparr> = [jane]
     \<and> oid jane = ''e1'' \<and> isActive jane
     \<and> isConnected (redis \<lparr> db = [jane], redis = warm_cache \<rparr>)
     \<and> faults (redis \<lparr> db = [jane], redis = warm_cache \<rparr>) = []
     \<and> f_isActive empty_filter = None"
    by (simp add: sample_defs sample_defs2 empty_filter_def)
  show ?thesis
    using h g
      list_active_visibility [of "\<lparr> db = [jane], redis = warm_cache \<rparr>" plain_mongo empty_filter
        None None jane_page jane "''e1''"]
    by simp
qed

section \<open>What a member can list\<close>

text \<open>
  Claim C1, at an input where the code departs from it. For a member with a reference to
  record \<open>e1\<close> the resolver replaces the filter by \<^verbatim>\<open>{_id: employeeRef}\<close>, a field
  \<^verbatim>\<open>getEmployees\<close> never reads: the member is given every active record, \<open>e2\<close> among them.
  A member without a reference is given the same list and no \<^verbatim>\<open>FORBIDDEN\<close>. In general the
  member's list is the unfiltered one (\<open>member_list_is_unfiltered\<close>); the other three record
  operations do refuse (\<open>member_record_operations_forbidden\<close>).
\<close>

theorem member_lists_other_records:
  "role (member_of (Some ''e1'')) = EMPLOYEE
   \<and> fst (employees_resolver plain_mongo empty_filter None None (Some (member_of (Some ''e1'')))
            \<lparr> db = [jane, john], redis = healthy_cache \<rparr>)
       = Inr \<lparr> data = [jane, john],
               pagination = \<lparr> total = 2, page = 1, limit = 10, pages = Num 1,
                              hasNextPage = False, hasPrevPage = False \<rparr> \<rparr>
   \<and> fst (employees_resolver plain_mongo empty_filter None None (Some (member_of None))
            \<lparr> db = [jane, john], redis = healthy_cache \<rparr>)
       = Inr \<lparr> data = [jane, john],
               pagination = \<lparr> total = 2, page = 1, limit = 10, pages = Num 1,
                              hasNextPage = False, hasPrevPage = False \<rparr> \<rparr>
   \<and> oid john \<noteq> ''e1''"
  by code_simp

section \<open>Marking attendance and the list cache\<close>

text \<open>
  Claim C2, at an input where the code departs from it. \<^verbatim>\<open>markAttendance\<close> succeeds at the store
  and deletes the record's own cache entry, but not the list entries: the same list request
  is then answered from the cache with the record as it was before the write
  (\<open>markAttendance_keeps_lists\<close> has it for every state). On the same state
  \<^verbatim>\<open>updateEmployee\<close> and \<^verbatim>\<open>deleteEmployee\<close> leave no list entry.
\<close>

theorem markAttendance_keeps_list_cache:
  "map_of (lists warm_cache) default_key = Some (jane_page, Some 300)
   \<and> markAttendance ''e1'' present_today \<lparr> db = [jane], redis = warm_cache \<rparr>
       = (Some jane_attended, \<lparr> db = [jane_attended], redis = warm_cache\<lparr>records := []\<rparr> \<rparr>)
   \<and> lists (warm_cache\<lparr>records := []\<rparr>) = [(default_key, (jane_page, Some 300))]
   \<and> fst (getEmployees plain_mongo empty_filter None None
            \<lparr> db = [jane_attended], redis = warm_cache\<lparr>records := []\<rparr> \<rparr>)
       = Inr jane_page
   \<and> data jane_page = [jane]
   \<and> jane \<noteq> jane_attended
   \<and> lists (redis (snd (updateEmployee ''e1'' (no_update\<lparr>u_class := Some ''Grade 11''\<rparr>)
                           \<lparr> db = [jane], redis = warm_cache \<rparr>))) = []
   \<and> lists (redis (snd (deleteEmployee ''e1'' \<lparr> db = [jane], redis = warm_cache \<rparr>))) = []"
  by (simp add: read_defs write_defs sample_defs sample_defs2)

end
